theory Spec2Isabelle
  imports Main "HOL-Library.Multiset"
begin

section \<open>Posting settled invoices: the data\<close>

text \<open>
  The module exports one function, called with
  \<^verbatim>\<open>{from, id, invoice, key, lnd, nodes, quiz, send}\<close>. It runs eight named tasks
  under \<^verbatim>\<open>asyncAuto\<close>: \<^verbatim>\<open>validate\<close>, then \<^verbatim>\<open>balancedOpen\<close>,
  \<^verbatim>\<open>getNodes\<close>, \<^verbatim>\<open>getPayment\<close> and \<^verbatim>\<open>getTransfer\<close> (each depending on
  \<^verbatim>\<open>validate\<close> only), then \<^verbatim>\<open>details\<close>, \<^verbatim>\<open>post\<close> and \<^verbatim>\<open>quiz\<close>.

  An authenticated LND handle is opaque to this module; a natural number names it.
\<close>

type_synonym lnd = nat

text \<open>An element of \<^verbatim>\<open>invoice.payments\<close>. The module reads \<^verbatim>\<open>in_channel\<close> only.\<close>

record payment_contribution =
  in_channel :: string
  mtokens :: string
  tokens :: int

record invoice =
  confirmed_at :: "string option"
  description :: string
  invoice_id :: string
  is_confirmed :: bool
  is_push :: bool
  payments :: "payment_contribution list"
  received :: int
  received_mtokens :: string

text \<open>An element of \<^verbatim>\<open>nodes\<close>: \<^verbatim>\<open>{from, lnd, public_key}\<close>.\<close>

record node =
  node_from :: string
  node_lnd :: lnd
  public_key :: string

text \<open>The \<^verbatim>\<open>proposal\<close> of \<^verbatim>\<open>balancedOpenRequest\<close>, with the fields \<^verbatim>\<open>details\<close> reads.\<close>

record proposal =
  capacity :: int
  fee_rate :: int
  partner_public_key :: string

text \<open>The payment carried by a \<^verbatim>\<open>confirmed\<close> event, with the fields \<^verbatim>\<open>details\<close> reads.\<close>

record past_payment =
  fee_mtokens :: string
  hops :: "string list"

text \<open>
  The terminal event of a past payment subscription: \<^verbatim>\<open>confirmed\<close>, \<^verbatim>\<open>error\<close>
  or \<^verbatim>\<open>failed\<close>. The module listens for these three and no other, and the
  subscription is taken to end in one of them.
\<close>

datatype payment_event = Confirmed past_payment | Errored | Failed

text \<open>The result of \<^verbatim>\<open>getChannel\<close>: \<^verbatim>\<open>{policies: [{public_key}]}\<close>.\<close>

record policy =
  policy_public_key :: string

record channel =
  policies :: "policy list"

text \<open>An element of the result of \<^verbatim>\<open>getNodes\<close>: \<^verbatim>\<open>{alias, id}\<close> (alias is an Isabelle keyword).\<close>

record node_alias =
  alias_name :: string
  alias_id :: string

text \<open>
  What a message composer returns: \<^verbatim>\<open>{icon, message, quiz, title}\<close>, where \<^verbatim>\<open>quiz\<close>
  and \<^verbatim>\<open>title\<close> may be undefined (\<open>None\<close>).
\<close>

record descriptor =
  icon :: string
  message :: string
  quiz :: "string list option"
  title :: "string option"

text \<open>
  The argument of the quiz sender, \<^verbatim>\<open>{answers, correct, question}\<close>. An answer read
  from outside the array would be \<^verbatim>\<open>undefined\<close>, which is \<open>None\<close> here.
\<close>

record quiz_message =
  answers :: "string option list"
  correct :: nat
  question :: "string option"

text \<open>
  Errors passed to a callback: the pair \<^verbatim>\<open>[code, reason]\<close>, and any other error
  that a collaborator reports.
\<close>

datatype error = Status nat string | Failure string

text \<open>
  Every call that leaves the module is recorded as an event, with its arguments: the
  node API calls, the three message composers and the two senders.
\<close>

datatype event =
    GetChannel lnd string
  | GetNodeAlias lnd string
  | SubscribeToPastPayment lnd string
  | GetBalancedOpenMessage lnd int string int
  | GetRebalanceMessage lnd string "string list" "payment_contribution list" string
  | GetReceivedMessage lnd string "payment_contribution list" int "node_alias list"
  | Send int string string
  | Quiz quiz_message

text \<open>
  A task whose callback is called yields an error or a value, and the events of the
  calls it made.
\<close>

type_synonym 'a outcome = "(error + 'a) \<times> event list"

text \<open>
  A task may also end before its callback is called: reading a property of
  \<^verbatim>\<open>undefined\<close> throws a TypeError. The one place of the module where that can
  happen is inside the callback it hands to \<^verbatim>\<open>getChannel\<close>, and the module has no
  handler for it, so the exception is never passed to a callback. When \<^verbatim>\<open>getChannel\<close>
  calls back before it returns, the exception unwinds through \<^verbatim>\<open>asyncAuto\<close> into
  the promise, which rejects with it if it has not been settled; when \<^verbatim>\<open>getChannel\<close>
  calls back later, the exception is uncaught and the promise is never settled by this
  task. \<open>TypeErrorThrown\<close> stands for both. The events with it are the calls made
  before the exception.
\<close>

datatype 'a reply = Called "error + 'a" | TypeErrorThrown

type_synonym 'a attempt = "'a reply \<times> event list"

text \<open>
  The collaborators the module requires, as functions of their arguments:
  \<^verbatim>\<open>balancedOpenRequest\<close> (paid-services), \<^verbatim>\<open>getChannel\<close> and
  \<^verbatim>\<open>subscribeToPastPayment\<close> (ln-service), \<^verbatim>\<open>getNodeAlias\<close> (ln-sync), the three
  message composers, and \<^verbatim>\<open>Math.random\<close> behind \<^verbatim>\<open>randomIndex\<close>.
\<close>

record env =
  balancedOpenRequest ::
    "string option \<Rightarrow> bool \<Rightarrow> payment_contribution list \<Rightarrow> string \<Rightarrow> proposal option"
  getChannel :: "lnd \<Rightarrow> string \<Rightarrow> error + channel"
  getNodeAlias :: "lnd \<Rightarrow> string \<Rightarrow> error + node_alias"
  subscribeToPastPayment :: "lnd \<Rightarrow> string \<Rightarrow> payment_event"
  getBalancedOpenMessage :: "lnd \<Rightarrow> int \<Rightarrow> string \<Rightarrow> int \<Rightarrow> error + descriptor"
  getRebalanceMessage ::
    "lnd \<Rightarrow> string \<Rightarrow> string list \<Rightarrow> payment_contribution list \<Rightarrow> string
      \<Rightarrow> error + descriptor"
  getReceivedMessage ::
    "lnd \<Rightarrow> string \<Rightarrow> payment_contribution list \<Rightarrow> int \<Rightarrow> node_alias list
      \<Rightarrow> error + descriptor"
  randomIndex :: "nat \<Rightarrow> nat"

text \<open>
  The arguments as the caller passes them. A field that is \<^verbatim>\<open>undefined\<close> is \<open>None\<close>;
  \<open>arg_nodes\<close> is \<open>None\<close> when \<^verbatim>\<open>nodes\<close> is not an array.
\<close>

record args =
  arg_from :: "string option"
  arg_id :: "int option"
  arg_invoice :: "invoice option"
  arg_key :: "string option"
  arg_lnd :: "lnd option"
  arg_nodes :: "node list option"
  arg_quiz :: "(quiz_message \<Rightarrow> error + unit) option"
  arg_send :: "(int \<Rightarrow> string \<Rightarrow> string \<Rightarrow> error + unit) option"

text \<open>The arguments once \<^verbatim>\<open>validate\<close> has passed: every field is there.\<close>

record checked =
  the_from :: string
  the_id :: int
  the_invoice :: invoice
  the_key :: string
  the_lnd :: lnd
  the_nodes :: "node list"
  the_quiz :: "quiz_message \<Rightarrow> error + unit"
  the_send :: "int \<Rightarrow> string \<Rightarrow> string \<Rightarrow> error + unit"

section \<open>The constants and helpers of the module\<close>

definition backslash :: char where
  "backslash = CHR 0x5C"

text \<open>The character class of the regular expression in \<^verbatim>\<open>escape\<close>.\<close>

definition reserved :: "char list" where
  "reserved =
     [CHR ''_'', CHR ''*'', CHR ''['', CHR '']'', CHR ''('', CHR '')'', CHR ''~'', CHR 0x60,
      CHR ''>'', CHR ''#'', CHR ''+'', CHR ''-'', CHR ''='', CHR ''|'', CHR ''{'', CHR ''}'',
      CHR ''.'', CHR ''!'', CHR 0x5C]"

text \<open>
  \<^verbatim>\<open>escape\<close>: a global replace of every character of the class by a backslash and
  the character itself.
\<close>

fun escape :: "string \<Rightarrow> string" where
  "escape [] = []"
| "escape (c # cs) =
     (if c \<in> set reserved then backslash # c # escape cs else c # escape cs)"

definition minQuizLength :: nat where
  "minQuizLength = 2"

definition maxQuizLength :: nat where
  "maxQuizLength = 10"

definition sendOptions :: string where
  "sendOptions = ''MarkdownV2''"

text \<open>
  \<^verbatim>\<open>uniq\<close>: the elements of a Set built from the array, in insertion order, so
  the first occurrence of each element stays.
\<close>

fun uniq_from :: "'a list \<Rightarrow> 'a list \<Rightarrow> 'a list" where
  "uniq_from seen [] = []"
| "uniq_from seen (x # xs) =
     (if x \<in> set seen then uniq_from seen xs else x # uniq_from (x # seen) xs)"

definition uniq :: "'a list \<Rightarrow> 'a list" where
  "uniq arr = uniq_from [] arr"

text \<open>JavaScript truthiness of a string and of a number that may be undefined.\<close>

definition truthy_string :: "string option \<Rightarrow> bool" where
  "truthy_string s = (case s of None \<Rightarrow> False | Some t \<Rightarrow> t \<noteq> [])"

definition truthy_number :: "int option \<Rightarrow> bool" where
  "truthy_number n = (case n of None \<Rightarrow> False | Some k \<Rightarrow> k \<noteq> 0)"

section \<open>Sequencing\<close>

text \<open>
  A task that depends on another runs after it, with its value; an error ends the
  run, and the events so far stay.
\<close>

definition and_then :: "'a outcome \<Rightarrow> ('a \<Rightarrow> 'b outcome) \<Rightarrow> 'b outcome" where
  "and_then m f =
     (case m of
        (Inl e, t) \<Rightarrow> (Inl e, t)
      | (Inr x, t) \<Rightarrow> (case f x of (r, t') \<Rightarrow> (r, t @ t')))"

text \<open>
  The same for tasks that may throw. The model runs the tasks with collaborators that
  call back before they return: \<^verbatim>\<open>asyncAuto\<close> then starts the ready tasks one after
  the other, in the order of their keys, and starts no task once one has passed an
  error; an exception ends the run where it is thrown. With collaborators that call
  back later the tasks overlap: the calls of a run that succeeds are the same in another
  order, and a run that fails may have made more of them. The general theorems below
  speak of the kind of the calls, of the composer that is called and of the order of the
  two senders, which are the same either way; the evaluations of the scenario list the
  calls in the order of this model.
\<close>

definition called :: "'a outcome \<Rightarrow> 'a attempt" where
  "called m = (Called (fst m), snd m)"

definition attempt_then :: "'a attempt \<Rightarrow> ('a \<Rightarrow> 'b attempt) \<Rightarrow> 'b attempt" where
  "attempt_then m f =
     (case m of
        (TypeErrorThrown, t) \<Rightarrow> (TypeErrorThrown, t)
      | (Called (Inl e), t) \<Rightarrow> (Called (Inl e), t)
      | (Called (Inr x), t) \<Rightarrow> (case f x of (r, t') \<Rightarrow> (r, t @ t')))"

text \<open>
  \<^verbatim>\<open>asyncMap\<close> calls the iteratee on every element, in order, whether or not an
  earlier one has passed an error; the result is the array of the values, or the first
  error. An exception ends the loop: it is the result of \<^verbatim>\<open>asyncMap\<close> unless an
  earlier iteratee has passed an error, which has then reached the final callback
  already.
\<close>

definition collect :: "error + 'b \<Rightarrow> 'b list reply \<Rightarrow> 'b list reply" where
  "collect r rest =
     (case r of
        Inl e \<Rightarrow> Called (Inl e)
      | Inr y \<Rightarrow>
          (case rest of
             TypeErrorThrown \<Rightarrow> TypeErrorThrown
           | Called (Inl e) \<Rightarrow> Called (Inl e)
           | Called (Inr ys) \<Rightarrow> Called (Inr (y # ys))))"

fun asyncMap :: "'a list \<Rightarrow> ('a \<Rightarrow> 'b attempt) \<Rightarrow> 'b list attempt" where
  "asyncMap [] f = (Called (Inr []), [])"
| "asyncMap (x # xs) f =
     (case f x of
        (TypeErrorThrown, t) \<Rightarrow> (TypeErrorThrown, t)
      | (Called r, t) \<Rightarrow> (case asyncMap xs f of (rest, u) \<Rightarrow> (collect r rest, t @ u)))"

section \<open>The tasks\<close>

subsection \<open>validate\<close>

text \<open>
  The checks of \<^verbatim>\<open>validate\<close>, in the order of the source. \<^verbatim>\<open>!from\<close>, \<^verbatim>\<open>!id\<close>
  and \<^verbatim>\<open>!key\<close> also hold of the empty string and of zero.
\<close>

definition absent :: "'a option \<Rightarrow> bool" where
  "absent x = (case x of None \<Rightarrow> True | Some y \<Rightarrow> False)"

definition validate :: "args \<Rightarrow> error + checked" where
  "validate a =
     (if \<not> truthy_string (arg_from a) then
        Inl (Status 400 ''ExpectedFromNameToPostSettledInvoice'')
      else if \<not> truthy_number (arg_id a) then
        Inl (Status 400 ''ExpectedUserIdNumberToPostSettledInvoice'')
      else if absent (arg_invoice a) then
        Inl (Status 400 ''ExpectedInvoiceToPostSettledInvoice'')
      else if \<not> truthy_string (arg_key a) then
        Inl (Status 400 ''ExpectedNodeIdentityKeyToPostSettledInvoice'')
      else if absent (arg_lnd a) then
        Inl (Status 400 ''ExpectedLndObjectToPostSettledInvoice'')
      else if absent (arg_nodes a) then
        Inl (Status 400 ''ExpectedArrayOfNodesToPostSettledInvoice'')
      else if absent (arg_quiz a) then
        Inl (Status 400 ''ExpectedSendQuizFunctionToPostSettledInvoice'')
      else if absent (arg_send a) then
        Inl (Status 400 ''ExpectedSendFunctionToPostSettledInvoice'')
      else
        Inr \<lparr>the_from = the (arg_from a), the_id = the (arg_id a),
          the_invoice = the (arg_invoice a), the_key = the (arg_key a),
          the_lnd = the (arg_lnd a), the_nodes = the (arg_nodes a),
          the_quiz = the (arg_quiz a), the_send = the (arg_send a)\<rparr>)"

subsection \<open>balancedOpen\<close>

definition balancedOpen :: "env \<Rightarrow> invoice \<Rightarrow> proposal option outcome" where
  "balancedOpen env invoice =
     (if \<not> is_confirmed invoice then (Inr None, [])
      else
        (Inr (balancedOpenRequest env (confirmed_at invoice) (is_push invoice) (payments invoice)
           (received_mtokens invoice)), []))"

subsection \<open>getNodes\<close>

text \<open>
  The iteratee of \<^verbatim>\<open>getNodes\<close> on one channel id. A failed \<^verbatim>\<open>getChannel\<close> gives
  \<^verbatim>\<open>{id, alias: id}\<close>. Otherwise \<^verbatim>\<open>peer\<close> is the first policy whose key differs from
  \<^verbatim>\<open>key\<close>; when there is none \<^verbatim>\<open>peer\<close> is undefined and \<^verbatim>\<open>peer.public_key\<close> throws,
  inside the callback of \<^verbatim>\<open>getChannel\<close>: the iteratee's callback is not called.
  The callback of \<^verbatim>\<open>getNodeAlias\<close> is the iteratee's own, so its error is passed on.
\<close>

definition getNodes_iteratee :: "env \<Rightarrow> lnd \<Rightarrow> string \<Rightarrow> string \<Rightarrow> node_alias attempt" where
  "getNodes_iteratee env l key cid =
     (case getChannel env l cid of
        Inl err \<Rightarrow> (Called (Inr \<lparr>alias_name = cid, alias_id = cid\<rparr>), [GetChannel l cid])
      | Inr res \<Rightarrow>
          (case find (\<lambda>n. policy_public_key n \<noteq> key) (policies res) of
             None \<Rightarrow> (TypeErrorThrown, [GetChannel l cid])
           | Some peer \<Rightarrow>
               (Called (getNodeAlias env l (policy_public_key peer)),
                [GetChannel l cid, GetNodeAlias l (policy_public_key peer)])))"

text \<open>\<^verbatim>\<open>getNodes\<close> has no check of \<^verbatim>\<open>invoice.is_confirmed\<close>.\<close>

definition getNodes :: "env \<Rightarrow> lnd \<Rightarrow> string \<Rightarrow> invoice \<Rightarrow> node_alias list attempt" where
  "getNodes env l key invoice =
     (let inChannels = uniq (map in_channel (payments invoice))
      in asyncMap inChannels (getNodes_iteratee env l key))"

subsection \<open>getPayment\<close>

text \<open>The value is \<^verbatim>\<open>{payment}\<close> on \<^verbatim>\<open>confirmed\<close>, undefined on the other two events.\<close>

definition getPayment :: "env \<Rightarrow> lnd \<Rightarrow> invoice \<Rightarrow> past_payment option outcome" where
  "getPayment env l invoice =
     (if \<not> is_confirmed invoice then (Inr None, [])
      else
        (Inr (case subscribeToPastPayment env l (invoice_id invoice) of
                Confirmed payment \<Rightarrow> Some payment
              | Errored \<Rightarrow> None
              | Failed \<Rightarrow> None),
         [SubscribeToPastPayment l (invoice_id invoice)]))"

subsection \<open>getTransfer\<close>

text \<open>
  \<^verbatim>\<open>asyncDetect\<close> starts the test on every other node and yields a node that passed
  it (here the first one in the order of \<^verbatim>\<open>nodes\<close>), or undefined;
  \<^verbatim>\<open>details\<close> reads only whether there is one. The test never reports an error.
\<close>

definition confirms :: "env \<Rightarrow> string \<Rightarrow> node \<Rightarrow> bool" where
  "confirms env pid n =
     (case subscribeToPastPayment env (node_lnd n) pid of
        Confirmed payment \<Rightarrow> True
      | Errored \<Rightarrow> False
      | Failed \<Rightarrow> False)"

definition getTransfer :: "env \<Rightarrow> string \<Rightarrow> node list \<Rightarrow> invoice \<Rightarrow> node option outcome" where
  "getTransfer env key nodes invoice =
     (if \<not> is_confirmed invoice then (Inr None, [])
      else
        (let otherNodes = filter (\<lambda>n. public_key n \<noteq> key) nodes
         in (Inr (find (confirms env (invoice_id invoice)) otherNodes),
             map (\<lambda>n. SubscribeToPastPayment (node_lnd n) (invoice_id invoice)) otherNodes)))"

subsection \<open>details\<close>

text \<open>A composer's descriptor is the value of \<^verbatim>\<open>details\<close>; its error is the task's.\<close>

definition composed :: "event \<Rightarrow> error + descriptor \<Rightarrow> descriptor option outcome" where
  "composed ev r = ((case r of Inl e \<Rightarrow> Inl e | Inr d \<Rightarrow> Inr (Some d)), [ev])"

definition details ::
  "env \<Rightarrow> lnd \<Rightarrow> invoice \<Rightarrow> proposal option \<Rightarrow> node_alias list \<Rightarrow> past_payment option
    \<Rightarrow> node option \<Rightarrow> descriptor option outcome" where
  "details env l invoice r_balancedOpen r_getNodes r_getPayment r_getTransfer =
     (if \<not> is_confirmed invoice then (Inr None, [])
      else
        (case r_getTransfer of
           Some n \<Rightarrow> (Inr None, [])
         | None \<Rightarrow>
             (case r_balancedOpen of
                Some p \<Rightarrow>
                  composed
                    (GetBalancedOpenMessage l (capacity p) (partner_public_key p) (fee_rate p))
                    (getBalancedOpenMessage env l (capacity p) (partner_public_key p)
                       (fee_rate p))
              | None \<Rightarrow>
                  (case r_getPayment of
                     Some payment \<Rightarrow>
                       composed
                         (GetRebalanceMessage l (fee_mtokens payment) (hops payment)
                            (payments invoice) (received_mtokens invoice))
                         (getRebalanceMessage env l (fee_mtokens payment) (hops payment)
                            (payments invoice) (received_mtokens invoice))
                   | None \<Rightarrow>
                       composed
                         (GetReceivedMessage l (description invoice) (payments invoice)
                            (received invoice) r_getNodes)
                         (getReceivedMessage env l (description invoice) (payments invoice)
                            (received invoice) r_getNodes)))))"

subsection \<open>post\<close>

definition post ::
  "(int \<Rightarrow> string \<Rightarrow> string \<Rightarrow> error + unit) \<Rightarrow> int \<Rightarrow> string \<Rightarrow> string \<Rightarrow> node list
    \<Rightarrow> descriptor option \<Rightarrow> unit outcome" where
  "post send uid from_name key nodes r_details =
     (case r_details of
        None \<Rightarrow> (Inr (), [])
      | Some d \<Rightarrow>
          (let receivedOnNode =
                 (if length nodes > length [key] then '' - '' @ from_name else []);
               txt = icon d @ '' '' @ message d
           in (send uid (txt @ escape receivedOnNode) sendOptions,
               [Send uid (txt @ escape receivedOnNode) sendOptions])))"

subsection \<open>quiz\<close>

text \<open>
  The answers of the quiz: \<^verbatim>\<open>answer\<close> is the first element, \<^verbatim>\<open>replace\<close> the
  element at \<^verbatim>\<open>correct\<close>, and the map over the array with its indices puts
  \<^verbatim>\<open>answer\<close> at \<^verbatim>\<open>correct\<close>, \<^verbatim>\<open>replace\<close> at index 0 and leaves the others.
\<close>

definition element :: "'a list \<Rightarrow> nat \<Rightarrow> 'a option" where
  "element xs i = (if i < length xs then Some (xs ! i) else None)"

definition randomize :: "string list \<Rightarrow> nat \<Rightarrow> string option list" where
  "randomize q c =
     (let answer = element q 0;
          replace = element q c
      in map (\<lambda>(n, i). if i = c then answer else if i = 0 then replace else Some n)
           (zip q [0..<length q]))"

definition quiz_task ::
  "env \<Rightarrow> (quiz_message \<Rightarrow> error + unit) \<Rightarrow> descriptor option \<Rightarrow> unit outcome" where
  "quiz_task env send_quiz r_details =
     (case r_details of
        None \<Rightarrow> (Inr (), [])
      | Some d \<Rightarrow>
          (case quiz d of
             None \<Rightarrow> (Inr (), [])
           | Some q \<Rightarrow>
               if length q < minQuizLength then (Inr (), [])
               else if length q > maxQuizLength then (Inr (), [])
               else
                 (let c = randomIndex env (length q);
                      m = \<lparr>answers = randomize q c, correct = c, question = title d\<rparr>
                  in (send_quiz m, [Quiz m]))))"

section \<open>The exported function\<close>

text \<open>
  The dependencies of the tasks are those of the source: the four checks depend on
  \<^verbatim>\<open>validate\<close>, \<^verbatim>\<open>details\<close> on the four checks, \<^verbatim>\<open>post\<close> on \<^verbatim>\<open>details\<close>, and
  \<^verbatim>\<open>quiz\<close> on \<^verbatim>\<open>post\<close>. The four checks are started in the order of their keys;
  \<^verbatim>\<open>details\<close> has the values of all four. The promise rejects with the error of the
  run.
\<close>

definition checks ::
  "env \<Rightarrow> checked
    \<Rightarrow> (proposal option \<times> node_alias list \<times> past_payment option \<times> node option) attempt" where
  "checks env v =
     attempt_then (called (balancedOpen env (the_invoice v))) (\<lambda>r_balancedOpen.
     attempt_then (getNodes env (the_lnd v) (the_key v) (the_invoice v)) (\<lambda>r_getNodes.
     attempt_then (called (getPayment env (the_lnd v) (the_invoice v))) (\<lambda>r_getPayment.
     attempt_then (called (getTransfer env (the_key v) (the_nodes v) (the_invoice v)))
       (\<lambda>r_getTransfer.
          (Called (Inr (r_balancedOpen, r_getNodes, r_getPayment, r_getTransfer)), [])))))"

definition dispatch :: "env \<Rightarrow> checked \<Rightarrow> descriptor option \<Rightarrow> unit outcome" where
  "dispatch env v r_details =
     and_then
       (post (the_send v) (the_id v) (the_from v) (the_key v) (the_nodes v) r_details)
       (\<lambda>u. quiz_task env (the_quiz v) r_details)"

definition postSettledInvoice :: "env \<Rightarrow> args \<Rightarrow> unit attempt" where
  "postSettledInvoice env a =
     attempt_then (called (validate a, [])) (\<lambda>v.
     attempt_then (checks env v)
       (\<lambda>(r_balancedOpen, r_getNodes, r_getPayment, r_getTransfer).
          called
            (and_then
               (details env (the_lnd v) (the_invoice v) r_balancedOpen r_getNodes
                  r_getPayment r_getTransfer)
               (dispatch env v))))"

text \<open>The events by kind: calls of the node API, of a composer, of a sender.\<close>

fun is_probe :: "event \<Rightarrow> bool" where
  "is_probe (GetChannel l c) = True"
| "is_probe (GetNodeAlias l k) = True"
| "is_probe (SubscribeToPastPayment l p) = True"
| "is_probe e = False"

fun is_composer :: "event \<Rightarrow> bool" where
  "is_composer (GetBalancedOpenMessage l c k r) = True"
| "is_composer (GetRebalanceMessage l f h p r) = True"
| "is_composer (GetReceivedMessage l d p r v) = True"
| "is_composer e = False"

fun is_dispatch :: "event \<Rightarrow> bool" where
  "is_dispatch (Send u t opts) = True"
| "is_dispatch (Quiz m) = True"
| "is_dispatch e = False"

text \<open>The reason tokens of \<^verbatim>\<open>validate\<close>, in the order of its checks.\<close>

definition reasons :: "string list" where
  "reasons =
     [''ExpectedFromNameToPostSettledInvoice'',
      ''ExpectedUserIdNumberToPostSettledInvoice'',
      ''ExpectedInvoiceToPostSettledInvoice'',
      ''ExpectedNodeIdentityKeyToPostSettledInvoice'',
      ''ExpectedLndObjectToPostSettledInvoice'',
      ''ExpectedArrayOfNodesToPostSettledInvoice'',
      ''ExpectedSendQuizFunctionToPostSettledInvoice'',
      ''ExpectedSendFunctionToPostSettledInvoice'']"

section \<open>A scenario\<close>

text \<open>
  One receiving node with key \<open>02aa\<close> and a settled invoice paid through the channels
  \<open>61x1\<close> and \<open>61x2\<close>, whose peer has the alias \<open>peerA\<close>. No balanced open, no past
  payment on any node. The theorems below are instantiated on this scenario and on
  variations of it.
\<close>

definition scenario_invoice :: invoice where
  "scenario_invoice =
     \<lparr>confirmed_at = Some ''2021-03-04T05:06:07.000Z'', description = ''coffee'',
      invoice_id = ''00ff'', is_confirmed = True, is_push = False,
      payments =
        [\<lparr>in_channel = ''61x1'', mtokens = ''1000'', tokens = 1\<rparr>,
         \<lparr>in_channel = ''61x2'', mtokens = ''2000'', tokens = 2\<rparr>],
      received = 3, received_mtokens = ''3000''\<rparr>"

definition scenario_descriptor :: descriptor where
  "scenario_descriptor =
     \<lparr>icon = ''$'', message = ''Received 3'',
      quiz = Some [''peerA'', ''peerB'', ''peerC'', ''peerD''],
      title = Some ''Who routed this?''\<rparr>"

definition scenario_env :: env where
  "scenario_env =
     \<lparr>balancedOpenRequest = (\<lambda>c p ps r. None),
      getChannel =
        (\<lambda>l c. Inr \<lparr>policies =
           [\<lparr>policy_public_key = ''02aa''\<rparr>, \<lparr>policy_public_key = ''03bb''\<rparr>]\<rparr>),
      getNodeAlias = (\<lambda>l k. Inr \<lparr>alias_name = ''peerA'', alias_id = k\<rparr>),
      subscribeToPastPayment = (\<lambda>l p. Failed),
      getBalancedOpenMessage =
        (\<lambda>l c k r. Inr \<lparr>icon = ''+'', message = ''Balanced open'', quiz = None,
           title = None\<rparr>),
      getRebalanceMessage =
        (\<lambda>l f h ps r. Inr \<lparr>icon = ''~'', message = ''Rebalanced'', quiz = None,
           title = None\<rparr>),
      getReceivedMessage = (\<lambda>l d ps r v. Inr scenario_descriptor),
      randomIndex = (\<lambda>n. n - 1)\<rparr>"

definition scenario_node :: node where
  "scenario_node = \<lparr>node_from = ''node_1'', node_lnd = 11, public_key = ''02aa''\<rparr>"

definition scenario_other_node :: node where
  "scenario_other_node = \<lparr>node_from = ''node_2'', node_lnd = 12, public_key = ''02cc''\<rparr>"

definition scenario_args :: args where
  "scenario_args =
     \<lparr>arg_from = Some ''node_1'', arg_id = Some 7, arg_invoice = Some scenario_invoice,
      arg_key = Some ''02aa'', arg_lnd = Some 11, arg_nodes = Some [scenario_node],
      arg_quiz = Some (\<lambda>m. Inr ()), arg_send = Some (\<lambda>u t opts. Inr ())\<rparr>"

definition scenario_checked :: checked where
  "scenario_checked =
     \<lparr>the_from = ''node_1'', the_id = 7, the_invoice = scenario_invoice,
      the_key = ''02aa'', the_lnd = 11, the_nodes = [scenario_node],
      the_quiz = (\<lambda>m. Inr ()), the_send = (\<lambda>u t opts. Inr ())\<rparr>"

text \<open>
  Variations: an environment where the invoice has both a balanced open proposal and a
  past payment of the receiving node; arguments with a second controlled node, and an
  environment where that node has paid the invoice.
\<close>

definition scenario_proposal :: proposal where
  "scenario_proposal = \<lparr>capacity = 2000000, fee_rate = 1, partner_public_key = ''03dd''\<rparr>"

definition scenario_payment :: past_payment where
  "scenario_payment = \<lparr>fee_mtokens = ''10'', hops = [''02ee'']\<rparr>"

definition scenario_env_both :: env where
  "scenario_env_both =
     scenario_env
       \<lparr>balancedOpenRequest := \<lambda>c p ps r. Some scenario_proposal,
        subscribeToPastPayment := \<lambda>l p. Confirmed scenario_payment\<rparr>"

definition scenario_args_two :: args where
  "scenario_args_two =
     scenario_args\<lparr>arg_nodes := Some [scenario_node, scenario_other_node]\<rparr>"

definition scenario_checked_two :: checked where
  "scenario_checked_two = scenario_checked\<lparr>the_nodes := [scenario_node, scenario_other_node]\<rparr>"

definition scenario_env_transfer :: env where
  "scenario_env_transfer =
     scenario_env
       \<lparr>subscribeToPastPayment := \<lambda>l p. if l = 12 then Confirmed scenario_payment else Failed\<rparr>"

text \<open>
  Variations on the descriptor of the received composer: one with no title, one with a
  single answer.
\<close>

definition scenario_env_untitled :: env where
  "scenario_env_untitled =
     scenario_env
       \<lparr>getReceivedMessage := \<lambda>l d ps r v. Inr (scenario_descriptor\<lparr>title := None\<rparr>)\<rparr>"

definition scenario_descriptor_short :: descriptor where
  "scenario_descriptor_short = scenario_descriptor\<lparr>quiz := Some [''peerA'']\<rparr>"

text \<open>
  Variations on the node API: every channel lookup fails and every past payment
  subscription ends in \<^verbatim>\<open>error\<close> or \<^verbatim>\<open>failed\<close>; every policy of a channel carries
  the receiving key; the invoice is not confirmed yet.
\<close>

definition scenario_env_absent :: env where
  "scenario_env_absent =
     scenario_env
       \<lparr>getChannel := \<lambda>l c. Inl (Failure ''FailedToFindChannel''),
        subscribeToPastPayment := \<lambda>l p. if l = 11 then Errored else Failed\<rparr>"

definition scenario_env_own_policies :: env where
  "scenario_env_own_policies =
     scenario_env
       \<lparr>getChannel := \<lambda>l c. Inr \<lparr>policies =
          [\<lparr>policy_public_key = ''02aa''\<rparr>, \<lparr>policy_public_key = ''02aa''\<rparr>]\<rparr>\<rparr>"

definition scenario_args_unconfirmed :: args where
  "scenario_args_unconfirmed =
     scenario_args\<lparr>arg_invoice := Some (scenario_invoice\<lparr>is_confirmed := False\<rparr>)\<rparr>"

text \<open>A variation where the alias lookup reports an error.\<close>

definition scenario_env_alias_error :: env where
  "scenario_env_alias_error =
     scenario_env\<lparr>getNodeAlias := \<lambda>l k. Inl (Status 503 ''UnexpectedErrorGettingNode'')\<rparr>"

section \<open>The answers of the quiz\<close>

lemma randomize_nth:
  "i < length q \<Longrightarrow> randomize q c ! i =
     (if i = c then element q 0 else if i = 0 then element q c else Some (q ! i))"
  by (simp add: randomize_def Let_def)

lemma length_randomize: "length (randomize q c) = length q"
  by (simp add: randomize_def Let_def)

lemma randomize_swap:
  assumes "c < length q"
  shows "randomize q c = map Some (q[0 := q ! c, c := q ! 0])"
proof (rule nth_equalityI)
  show "length (randomize q c) = length (map Some (q[0 := q ! c, c := q ! 0]))"
    by (simp add: length_randomize)
next
  fix i assume "i < length (randomize q c)"
  then have i: "i < length q" by (simp add: length_randomize)
  with assms show "randomize q c ! i = map Some (q[0 := q ! c, c := q ! 0]) ! i"
    by (auto simp add: randomize_nth element_def nth_list_update)
qed

text \<open>
  C4. For an answer list \<open>q\<close> of length between 2 and 10 and an index \<open>c\<close> below its
  length, the answers sent are \<open>q\<close> with the positions 0 and \<open>c\<close> exchanged: the first
  answer of \<open>q\<close> stands at \<open>c\<close>, the answer that stood at \<open>c\<close> stands first, every
  other answer keeps its position, and the multiset of answers is that of \<open>q\<close>. No
  answer is undefined.
\<close>

theorem randomize_transposition:
  assumes "2 \<le> length q" and "length q \<le> 10" and "c < length q"
  shows "randomize q c = map Some (q[0 := q ! c, c := q ! 0]) \<and>
         randomize q c ! c = Some (q ! 0) \<and>
         randomize q c ! 0 = Some (q ! c) \<and>
         (\<forall>i < length q. i \<noteq> 0 \<and> i \<noteq> c \<longrightarrow> randomize q c ! i = Some (q ! i)) \<and>
         mset (randomize q c) = mset (map Some q)"
proof -
  have pos: "0 < length q" using assms(1) by (cases q) auto
  have swap: "randomize q c = map Some (q[0 := q ! c, c := q ! 0])"
    using assms(3) by (rule randomize_swap)
  have at_c: "randomize q c ! c = Some (q ! 0)"
    using assms(3) pos by (simp add: randomize_nth element_def)
  have at_0: "randomize q c ! 0 = Some (q ! c)"
    using assms(3) pos by (simp add: randomize_nth element_def)
  have rest: "\<forall>i < length q. i \<noteq> 0 \<and> i \<noteq> c \<longrightarrow> randomize q c ! i = Some (q ! i)"
    by (simp add: randomize_nth)
  have "mset (q[0 := q ! c, c := q ! 0]) = mset q"
    using assms(3) pos by (simp add: mset_swap)
  then have ms: "mset (randomize q c) = mset (map Some q)"
    by (simp add: swap del: mset_map) (metis mset_map)
  from swap at_c at_0 rest ms show ?thesis by blast
qed

theorem randomize_transposition_witness:
  "2 \<le> length [''a'', ''b'', ''c''] \<and> length [''a'', ''b'', ''c''] \<le> 10 \<and>
   (2::nat) < length [''a'', ''b'', ''c''] \<and>
   randomize [''a'', ''b'', ''c''] 2 = [Some ''c'', Some ''b'', Some ''a'']"
  using randomize_transposition [of "[''a'', ''b'', ''c'']" 2] by simp

section \<open>Sequencing and events\<close>

lemma and_then_Inl [simp]: "and_then (Inl e, t) f = (Inl e, t)"
  by (simp add: and_then_def)

lemma and_then_Inr: "and_then (Inr x, t) f = (fst (f x), t @ snd (f x))"
  by (simp add: and_then_def split: prod.splits)

lemma called_pair [simp]: "called (r, t) = (Called r, t)"
  by (simp add: called_def)

lemma attempt_then_Thrown [simp]: "attempt_then (TypeErrorThrown, t) f = (TypeErrorThrown, t)"
  by (simp add: attempt_then_def)

lemma attempt_then_Inl [simp]: "attempt_then (Called (Inl e), t) f = (Called (Inl e), t)"
  by (simp add: attempt_then_def)

lemma attempt_then_Inr: "attempt_then (Called (Inr x), t) f = (fst (f x), t @ snd (f x))"
  by (simp add: attempt_then_def split: prod.splits)

lemma attempt_then_events:
  assumes "list_all P (snd m)" and "\<And>x. list_all P (snd (f x))"
  shows "list_all P (snd (attempt_then m f))"
proof (cases m)
  case (Pair r t)
  show ?thesis
  proof (cases r)
    case TypeErrorThrown
    then show ?thesis using Pair assms(1) by simp
  next
    case (Called c)
    then show ?thesis using Pair assms by (cases c) (simp_all add: attempt_then_Inr)
  qed
qed

lemma probe_not_composer: "is_probe e \<Longrightarrow> \<not> is_composer e"
  by (cases e) simp_all

lemma probe_not_dispatch: "is_probe e \<Longrightarrow> \<not> is_dispatch e"
  by (cases e) simp_all

lemma iteratee_probes: "list_all is_probe (snd (getNodes_iteratee env l key cid))"
  by (simp add: getNodes_iteratee_def split: sum.splits option.splits)

lemma asyncMap_events:
  assumes "\<And>x. list_all P (snd (f x))"
  shows "list_all P (snd (asyncMap xs f))"
proof (induction xs)
  case Nil
  show ?case by simp
next
  case (Cons x xs)
  obtain r t where fx: "f x = (r, t)" by (cases "f x")
  obtain rest u where m: "asyncMap xs f = (rest, u)" by (cases "asyncMap xs f")
  have t: "list_all P t" using assms [of x] fx by simp
  have u: "list_all P u" using Cons.IH m by simp
  show ?case using fx m t u by (cases r) simp_all
qed

lemma getNodes_probes: "list_all is_probe (snd (getNodes env l key invoice))"
  by (simp add: getNodes_def asyncMap_events iteratee_probes)

lemma balancedOpen_events: "snd (balancedOpen env invoice) = []"
  by (simp add: balancedOpen_def)

lemma getPayment_probes: "list_all is_probe (snd (getPayment env l invoice))"
  by (simp add: getPayment_def)

lemma getTransfer_probes: "list_all is_probe (snd (getTransfer env key nodes invoice))"
  by (simp add: getTransfer_def Let_def list_all_iff)

lemma snd_called [simp]: "snd (called m) = snd m"
  by (simp add: called_def)

lemma fst_called [simp]: "fst (called m) = Called (fst m)"
  by (simp add: called_def)

lemma checks_probes: "list_all is_probe (snd (checks env v))"
  unfolding checks_def
  by (intro attempt_then_events)
     (simp_all add: balancedOpen_events getNodes_probes getPayment_probes getTransfer_probes)

lemma filter_probes_composer: "list_all is_probe t \<Longrightarrow> filter is_composer t = []"
  by (induction t) (auto dest: probe_not_composer)

lemma filter_probes_dispatch: "list_all is_probe t \<Longrightarrow> filter is_dispatch t = []"
  by (induction t) (auto dest: probe_not_dispatch)

lemma balancedOpen_Inr: "\<exists>p. fst (balancedOpen env invoice) = Inr p"
  by (simp add: balancedOpen_def)

lemma getPayment_Inr: "\<exists>p. fst (getPayment env l invoice) = Inr p"
  by (simp add: getPayment_def)

lemma getTransfer_Inr: "\<exists>p. fst (getTransfer env key nodes invoice) = Inr p"
  by (simp add: getTransfer_def Let_def)

lemma attempt_then_called_Inr:
  "fst m = Inr x \<Longrightarrow> attempt_then (called m) f = (fst (f x), snd m @ snd (f x))"
  by (cases m) (simp add: attempt_then_Inr)

lemma attempt_then_fst_Inr:
  "fst m = Called (Inr x) \<Longrightarrow> attempt_then m f = (fst (f x), snd m @ snd (f x))"
  by (cases m) (simp add: attempt_then_Inr)

lemma attempt_then_fst_Inl:
  "fst m = Called (Inl e) \<Longrightarrow> attempt_then m f = (Called (Inl e), snd m)"
  by (cases m) simp

lemma attempt_then_fst_Thrown:
  "fst m = TypeErrorThrown \<Longrightarrow> attempt_then m f = (TypeErrorThrown, snd m)"
  by (cases m) simp

lemma checks_joined:
  assumes "fst (balancedOpen env (the_invoice v)) = Inr r1"
    and "fst (getNodes env (the_lnd v) (the_key v) (the_invoice v)) = Called (Inr r2)"
    and "fst (getPayment env (the_lnd v) (the_invoice v)) = Inr r3"
    and "fst (getTransfer env (the_key v) (the_nodes v) (the_invoice v)) = Inr r4"
  shows "checks env v =
     (Called (Inr (r1, r2, r3, r4)),
      snd (getNodes env (the_lnd v) (the_key v) (the_invoice v)) @
      snd (getPayment env (the_lnd v) (the_invoice v)) @
      snd (getTransfer env (the_key v) (the_nodes v) (the_invoice v)))"
  by (simp add: checks_def attempt_then_called_Inr [OF assms(1)]
      attempt_then_fst_Inr [OF assms(2)] attempt_then_called_Inr [OF assms(3)]
      attempt_then_called_Inr [OF assms(4)] balancedOpen_events)

lemma checks_failed:
  assumes "fst (getNodes env (the_lnd v) (the_key v) (the_invoice v)) = Called (Inl e)"
  shows "checks env v =
     (Called (Inl e), snd (getNodes env (the_lnd v) (the_key v) (the_invoice v)))"
proof -
  obtain p where "fst (balancedOpen env (the_invoice v)) = Inr p"
    using balancedOpen_Inr by blast
  then show ?thesis
    by (simp add: checks_def attempt_then_called_Inr attempt_then_fst_Inl [OF assms]
        balancedOpen_events)
qed

lemma checks_thrown:
  assumes "fst (getNodes env (the_lnd v) (the_key v) (the_invoice v)) = TypeErrorThrown"
  shows "checks env v =
     (TypeErrorThrown, snd (getNodes env (the_lnd v) (the_key v) (the_invoice v)))"
proof -
  obtain p where "fst (balancedOpen env (the_invoice v)) = Inr p"
    using balancedOpen_Inr by blast
  then show ?thesis
    by (simp add: checks_def attempt_then_called_Inr attempt_then_fst_Thrown [OF assms]
        balancedOpen_events)
qed

lemma run_invalid:
  "validate a = Inl e \<Longrightarrow> postSettledInvoice env a = (Called (Inl e), [])"
  by (simp add: postSettledInvoice_def)

lemma run_failed:
  assumes "validate a = Inr v"
    and "fst (getNodes env (the_lnd v) (the_key v) (the_invoice v)) = Called (Inl e)"
  shows "postSettledInvoice env a = (Called (Inl e), snd (checks env v))"
  by (simp add: postSettledInvoice_def assms(1) attempt_then_Inr checks_failed [OF assms(2)])

lemma run_thrown:
  assumes "validate a = Inr v"
    and "fst (getNodes env (the_lnd v) (the_key v) (the_invoice v)) = TypeErrorThrown"
  shows "postSettledInvoice env a = (TypeErrorThrown, snd (checks env v))"
  by (simp add: postSettledInvoice_def assms(1) attempt_then_Inr checks_thrown [OF assms(2)])

lemma run_joined:
  assumes "validate a = Inr v"
    and "fst (checks env v) = Called (Inr (r1, r2, r3, r4))"
  shows "postSettledInvoice env a =
           (Called (fst (and_then (details env (the_lnd v) (the_invoice v) r1 r2 r3 r4)
                   (dispatch env v))),
            snd (checks env v) @
            snd (and_then (details env (the_lnd v) (the_invoice v) r1 r2 r3 r4)
                   (dispatch env v)))"
  by (simp add: postSettledInvoice_def assms(1) attempt_then_Inr
      attempt_then_fst_Inr [OF assms(2)])

section \<open>Validation\<close>

lemma absent_None [simp]: "absent None"
  by (simp add: absent_def)

lemma absent_Some [simp]: "\<not> absent (Some x)"
  by (simp add: absent_def)

lemma truthy_string_None [simp]: "\<not> truthy_string None"
  by (simp add: truthy_string_def)

lemma truthy_number_None [simp]: "\<not> truthy_number None"
  by (simp add: truthy_number_def)

lemma validate_falsy:
  assumes "\<not> truthy_string (arg_from a) \<or> \<not> truthy_number (arg_id a) \<or>
           absent (arg_invoice a) \<or> \<not> truthy_string (arg_key a) \<or> absent (arg_lnd a) \<or>
           absent (arg_nodes a) \<or> absent (arg_quiz a) \<or> absent (arg_send a)"
  shows "\<exists>k < length reasons. validate a = Inl (Status 400 (reasons ! k))"
proof -
  consider (1) "\<not> truthy_string (arg_from a)"
    | (2) "truthy_string (arg_from a)" "\<not> truthy_number (arg_id a)"
    | (3) "truthy_string (arg_from a)" "truthy_number (arg_id a)" "absent (arg_invoice a)"
    | (4) "truthy_string (arg_from a)" "truthy_number (arg_id a)" "\<not> absent (arg_invoice a)"
          "\<not> truthy_string (arg_key a)"
    | (5) "truthy_string (arg_from a)" "truthy_number (arg_id a)" "\<not> absent (arg_invoice a)"
          "truthy_string (arg_key a)" "absent (arg_lnd a)"
    | (6) "truthy_string (arg_from a)" "truthy_number (arg_id a)" "\<not> absent (arg_invoice a)"
          "truthy_string (arg_key a)" "\<not> absent (arg_lnd a)" "absent (arg_nodes a)"
    | (7) "truthy_string (arg_from a)" "truthy_number (arg_id a)" "\<not> absent (arg_invoice a)"
          "truthy_string (arg_key a)" "\<not> absent (arg_lnd a)" "\<not> absent (arg_nodes a)"
          "absent (arg_quiz a)"
    | (8) "truthy_string (arg_from a)" "truthy_number (arg_id a)" "\<not> absent (arg_invoice a)"
          "truthy_string (arg_key a)" "\<not> absent (arg_lnd a)" "\<not> absent (arg_nodes a)"
          "\<not> absent (arg_quiz a)" "absent (arg_send a)"
    using assms by blast
  then show ?thesis
  proof cases
    case 1
    then have "validate a = Inl (Status 400 (reasons ! 0))"
      by (simp add: validate_def reasons_def)
    then show ?thesis by (intro exI [of _ 0]) (simp add: reasons_def)
  next
    case 2
    then have "validate a = Inl (Status 400 (reasons ! 1))"
      by (simp add: validate_def reasons_def)
    then show ?thesis by (intro exI [of _ 1]) (simp add: reasons_def)
  next
    case 3
    then have "validate a = Inl (Status 400 (reasons ! 2))"
      by (simp add: validate_def reasons_def)
    then show ?thesis by (intro exI [of _ 2]) (simp add: reasons_def)
  next
    case 4
    then have "validate a = Inl (Status 400 (reasons ! 3))"
      by (simp add: validate_def reasons_def)
    then show ?thesis by (intro exI [of _ 3]) (simp add: reasons_def)
  next
    case 5
    then have "validate a = Inl (Status 400 (reasons ! 4))"
      by (simp add: validate_def reasons_def)
    then show ?thesis by (intro exI [of _ 4]) (simp add: reasons_def)
  next
    case 6
    then have "validate a = Inl (Status 400 (reasons ! 5))"
      by (simp add: validate_def reasons_def)
    then show ?thesis by (intro exI [of _ 5]) (simp add: reasons_def)
  next
    case 7
    then have "validate a = Inl (Status 400 (reasons ! 6))"
      by (simp add: validate_def reasons_def)
    then show ?thesis by (intro exI [of _ 6]) (simp add: reasons_def)
  next
    case 8
    then have "validate a = Inl (Status 400 (reasons ! 7))"
      by (simp add: validate_def reasons_def)
    then show ?thesis by (intro exI [of _ 7]) (simp add: reasons_def)
  qed
qed

lemma validate_Inr_fields:
  assumes "validate b = Inr v"
  shows "truthy_string (arg_from b) \<and> truthy_number (arg_id b) \<and> \<not> absent (arg_invoice b) \<and>
         truthy_string (arg_key b) \<and> \<not> absent (arg_lnd b) \<and> \<not> absent (arg_nodes b) \<and>
         \<not> absent (arg_quiz b) \<and> \<not> absent (arg_send b)"
  using assms by (simp add: validate_def split: if_splits)

text \<open>
  C8. When a required argument (\<^verbatim>\<open>from\<close>, \<^verbatim>\<open>id\<close>, \<^verbatim>\<open>invoice\<close>, \<^verbatim>\<open>key\<close>,
  \<^verbatim>\<open>lnd\<close>, \<^verbatim>\<open>quiz\<close>, \<^verbatim>\<open>send\<close>) is undefined, or \<^verbatim>\<open>nodes\<close> is not an array, the run
  ends with the pair of 400 and one of the eight reason tokens passed on, and no call has left the
  module: no probe, no composer, no sender. The eight tokens are pairwise distinct, and
  taking one argument away from arguments that pass \<^verbatim>\<open>validate\<close> gives the token of
  that argument.
\<close>

theorem validation_fails_fast:
  "(arg_from a = None \<or> arg_id a = None \<or> arg_invoice a = None \<or> arg_key a = None \<or>
    arg_lnd a = None \<or> arg_nodes a = None \<or> arg_quiz a = None \<or> arg_send a = None \<longrightarrow>
      (\<exists>k < length reasons.
         postSettledInvoice env a = (Called (Inl (Status 400 (reasons ! k))), []))) \<and>
   distinct reasons \<and>
   (validate b = Inr v \<longrightarrow>
      postSettledInvoice env (b\<lparr>arg_from := None\<rparr>) =
        (Called (Inl (Status 400 ''ExpectedFromNameToPostSettledInvoice'')), []) \<and>
      postSettledInvoice env (b\<lparr>arg_id := None\<rparr>) =
        (Called (Inl (Status 400 ''ExpectedUserIdNumberToPostSettledInvoice'')), []) \<and>
      postSettledInvoice env (b\<lparr>arg_invoice := None\<rparr>) =
        (Called (Inl (Status 400 ''ExpectedInvoiceToPostSettledInvoice'')), []) \<and>
      postSettledInvoice env (b\<lparr>arg_key := None\<rparr>) =
        (Called (Inl (Status 400 ''ExpectedNodeIdentityKeyToPostSettledInvoice'')), []) \<and>
      postSettledInvoice env (b\<lparr>arg_lnd := None\<rparr>) =
        (Called (Inl (Status 400 ''ExpectedLndObjectToPostSettledInvoice'')), []) \<and>
      postSettledInvoice env (b\<lparr>arg_nodes := None\<rparr>) =
        (Called (Inl (Status 400 ''ExpectedArrayOfNodesToPostSettledInvoice'')), []) \<and>
      postSettledInvoice env (b\<lparr>arg_quiz := None\<rparr>) =
        (Called (Inl (Status 400 ''ExpectedSendQuizFunctionToPostSettledInvoice'')), []) \<and>
      postSettledInvoice env (b\<lparr>arg_send := None\<rparr>) =
        (Called (Inl (Status 400 ''ExpectedSendFunctionToPostSettledInvoice'')), []))"
proof (intro conjI impI)
  assume "arg_from a = None \<or> arg_id a = None \<or> arg_invoice a = None \<or> arg_key a = None \<or>
    arg_lnd a = None \<or> arg_nodes a = None \<or> arg_quiz a = None \<or> arg_send a = None"
  then have "\<not> truthy_string (arg_from a) \<or> \<not> truthy_number (arg_id a) \<or>
           absent (arg_invoice a) \<or> \<not> truthy_string (arg_key a) \<or> absent (arg_lnd a) \<or>
           absent (arg_nodes a) \<or> absent (arg_quiz a) \<or> absent (arg_send a)"
    by auto
  then obtain k where "k < length reasons" "validate a = Inl (Status 400 (reasons ! k))"
    using validate_falsy by blast
  then show "\<exists>k < length reasons.
      postSettledInvoice env a = (Called (Inl (Status 400 (reasons ! k))), [])"
    using run_invalid by blast
next
  show "distinct reasons" by (simp add: reasons_def)
next
  assume ok: "validate b = Inr v"
  note f = validate_Inr_fields [OF ok]
  show "postSettledInvoice env (b\<lparr>arg_from := None\<rparr>) =
        (Called (Inl (Status 400 ''ExpectedFromNameToPostSettledInvoice'')), [])"
    by (rule run_invalid) (simp add: validate_def)
  show "postSettledInvoice env (b\<lparr>arg_id := None\<rparr>) =
        (Called (Inl (Status 400 ''ExpectedUserIdNumberToPostSettledInvoice'')), [])"
    using f by (intro run_invalid) (simp add: validate_def)
  show "postSettledInvoice env (b\<lparr>arg_invoice := None\<rparr>) =
        (Called (Inl (Status 400 ''ExpectedInvoiceToPostSettledInvoice'')), [])"
    using f by (intro run_invalid) (simp add: validate_def)
  show "postSettledInvoice env (b\<lparr>arg_key := None\<rparr>) =
        (Called (Inl (Status 400 ''ExpectedNodeIdentityKeyToPostSettledInvoice'')), [])"
    using f by (intro run_invalid) (simp add: validate_def)
  show "postSettledInvoice env (b\<lparr>arg_lnd := None\<rparr>) =
        (Called (Inl (Status 400 ''ExpectedLndObjectToPostSettledInvoice'')), [])"
    using f by (intro run_invalid) (simp add: validate_def)
  show "postSettledInvoice env (b\<lparr>arg_nodes := None\<rparr>) =
        (Called (Inl (Status 400 ''ExpectedArrayOfNodesToPostSettledInvoice'')), [])"
    using f by (intro run_invalid) (simp add: validate_def)
  show "postSettledInvoice env (b\<lparr>arg_quiz := None\<rparr>) =
        (Called (Inl (Status 400 ''ExpectedSendQuizFunctionToPostSettledInvoice'')), [])"
    using f by (intro run_invalid) (simp add: validate_def)
  show "postSettledInvoice env (b\<lparr>arg_send := None\<rparr>) =
        (Called (Inl (Status 400 ''ExpectedSendFunctionToPostSettledInvoice'')), [])"
    using f by (intro run_invalid) (simp add: validate_def)
qed

lemma validate_scenario: "validate scenario_args = Inr scenario_checked"
  by (simp add: validate_def scenario_args_def scenario_checked_def truthy_string_def
      truthy_number_def)

theorem validation_fails_fast_witness:
  "arg_key (scenario_args\<lparr>arg_key := None\<rparr>) = None \<and>
   postSettledInvoice scenario_env (scenario_args\<lparr>arg_key := None\<rparr>) =
     (Called (Inl (Status 400 ''ExpectedNodeIdentityKeyToPostSettledInvoice'')), []) \<and>
   validate scenario_args = Inr scenario_checked \<and>
   postSettledInvoice scenario_env (scenario_args\<lparr>arg_send := None\<rparr>) =
     (Called (Inl (Status 400 ''ExpectedSendFunctionToPostSettledInvoice'')), [])"
  using validation_fails_fast
    [of "scenario_args\<lparr>arg_key := None\<rparr>" scenario_env scenario_args scenario_checked]
    validate_scenario
  by simp

section \<open>Classification and dispatch\<close>

lemma checks_joined_fst:
  assumes "fst (balancedOpen env (the_invoice v)) = Inr r1"
    and "fst (getNodes env (the_lnd v) (the_key v) (the_invoice v)) = Called (Inr r2)"
    and "fst (getPayment env (the_lnd v) (the_invoice v)) = Inr r3"
    and "fst (getTransfer env (the_key v) (the_nodes v) (the_invoice v)) = Inr r4"
  shows "fst (checks env v) = Called (Inr (r1, r2, r3, r4))"
  by (simp add: checks_joined [OF assms])

lemma post_None: "post s u f k ns None = (Inr (), [])"
  by (simp add: post_def)

lemma quiz_task_None: "quiz_task env sq None = (Inr (), [])"
  by (simp add: quiz_task_def)

lemma dispatch_None: "dispatch env v None = (Inr (), [])"
  by (simp add: dispatch_def post_None quiz_task_None and_then_Inr)

lemma post_Some:
  "post s u f k ns (Some d) =
     (s u (icon d @ '' '' @ message d @ escape (if 1 < length ns then '' - '' @ f else []))
        sendOptions,
      [Send u (icon d @ '' '' @ message d @ escape (if 1 < length ns then '' - '' @ f else []))
         sendOptions])"
  by (simp add: post_def Let_def)

lemma quiz_task_events:
  "snd (quiz_task env sq r) = [] \<or> (\<exists>m. snd (quiz_task env sq r) = [Quiz m])"
  by (simp add: quiz_task_def Let_def split: option.splits)

lemma dispatch_Some_failed:
  assumes "the_send v (the_id v)
      (icon d @ '' '' @ message d @
         escape (if 1 < length (the_nodes v) then '' - '' @ the_from v else []))
      sendOptions = Inl e"
  shows "dispatch env v (Some d) =
     (Inl e,
      [Send (the_id v)
         (icon d @ '' '' @ message d @
            escape (if 1 < length (the_nodes v) then '' - '' @ the_from v else []))
         sendOptions])"
  using assms by (simp add: dispatch_def post_Some)

lemma dispatch_Some_sent:
  assumes "the_send v (the_id v)
      (icon d @ '' '' @ message d @
         escape (if 1 < length (the_nodes v) then '' - '' @ the_from v else []))
      sendOptions = Inr u"
  shows "dispatch env v (Some d) =
     (fst (quiz_task env (the_quiz v) (Some d)),
      Send (the_id v)
         (icon d @ '' '' @ message d @
            escape (if 1 < length (the_nodes v) then '' - '' @ the_from v else []))
         sendOptions # snd (quiz_task env (the_quiz v) (Some d)))"
  using assms by (simp add: dispatch_def post_Some and_then_Inr)

lemma dispatch_composer_free: "filter is_composer (snd (dispatch env v r)) = []"
proof (cases r)
  case None
  then show ?thesis by (simp add: dispatch_None)
next
  case (Some d)
  let ?s = "the_send v (the_id v)
      (icon d @ '' '' @ message d @
         escape (if 1 < length (the_nodes v) then '' - '' @ the_from v else []))
      sendOptions"
  show ?thesis
  proof (cases ?s)
    case (Inl e)
    then show ?thesis using Some by (simp add: dispatch_Some_failed)
  next
    case (Inr u)
    have "filter is_composer (snd (quiz_task env (the_quiz v) (Some d))) = []"
      using quiz_task_events [of env "the_quiz v" "Some d"] by auto
    then show ?thesis using Some Inr by (simp add: dispatch_Some_sent)
  qed
qed

lemma snd_and_then_composer:
  assumes "\<And>x. filter is_composer (snd (f x)) = []"
  shows "filter is_composer (snd (and_then m f)) = filter is_composer (snd m)"
proof (cases m)
  case (Pair r t)
  then show ?thesis using assms by (cases r) (simp_all add: and_then_Inr)
qed

lemma snd_composed: "snd (composed ev r) = [ev]"
  by (simp add: composed_def)

lemma composer_of_run:
  assumes "validate a = Inr v"
    and "is_confirmed (the_invoice v)"
    and "fst (balancedOpen env (the_invoice v)) = Inr r_balancedOpen"
    and "fst (getNodes env (the_lnd v) (the_key v) (the_invoice v)) = Called (Inr r_getNodes)"
    and "fst (getPayment env (the_lnd v) (the_invoice v)) = Inr r_getPayment"
    and "fst (getTransfer env (the_key v) (the_nodes v) (the_invoice v)) = Inr r_getTransfer"
  shows "filter is_composer (snd (postSettledInvoice env a)) =
           (case r_getTransfer of
              Some n \<Rightarrow> []
            | None \<Rightarrow>
                (case r_balancedOpen of
                   Some p \<Rightarrow>
                     [GetBalancedOpenMessage (the_lnd v) (capacity p) (partner_public_key p)
                        (fee_rate p)]
                 | None \<Rightarrow>
                     (case r_getPayment of
                        Some payment \<Rightarrow>
                          [GetRebalanceMessage (the_lnd v) (fee_mtokens payment) (hops payment)
                             (payments (the_invoice v)) (received_mtokens (the_invoice v))]
                      | None \<Rightarrow>
                          [GetReceivedMessage (the_lnd v) (description (the_invoice v))
                             (payments (the_invoice v)) (received (the_invoice v))
                             r_getNodes])))"
proof -
  let ?d = "details env (the_lnd v) (the_invoice v) r_balancedOpen r_getNodes r_getPayment
    r_getTransfer"
  let ?c = "case r_getTransfer of
              Some n \<Rightarrow> []
            | None \<Rightarrow>
                (case r_balancedOpen of
                   Some p \<Rightarrow>
                     [GetBalancedOpenMessage (the_lnd v) (capacity p) (partner_public_key p)
                        (fee_rate p)]
                 | None \<Rightarrow>
                     (case r_getPayment of
                        Some payment \<Rightarrow>
                          [GetRebalanceMessage (the_lnd v) (fee_mtokens payment) (hops payment)
                             (payments (the_invoice v)) (received_mtokens (the_invoice v))]
                      | None \<Rightarrow>
                          [GetReceivedMessage (the_lnd v) (description (the_invoice v))
                             (payments (the_invoice v)) (received (the_invoice v))
                             r_getNodes]))"
  have joined:
    "fst (checks env v) =
       Called (Inr (r_balancedOpen, r_getNodes, r_getPayment, r_getTransfer))"
    using assms(3-6) by (rule checks_joined_fst)
  have "filter is_composer (snd (postSettledInvoice env a)) =
      filter is_composer (snd (and_then ?d (dispatch env v)))"
    by (simp add: run_joined [OF assms(1) joined] filter_probes_composer [OF checks_probes])
  also have "\<dots> = filter is_composer (snd ?d)"
    by (rule snd_and_then_composer) (rule dispatch_composer_free)
  also have "\<dots> = ?c"
    using assms(2) by (simp add: details_def snd_composed split: option.splits)
  finally show ?thesis .
qed

text \<open>
  C1. For arguments that pass \<^verbatim>\<open>validate\<close> and a confirmed invoice, once the four
  checks have their values, the composer that is called, with the facts it is called
  on, is decided in the order transfer, balanced open, rebalance, received: no composer
  when \<^verbatim>\<open>getTransfer\<close> found a node; otherwise the balanced open composer on the proposal
  when \<^verbatim>\<open>balancedOpen\<close> has one; otherwise the rebalance composer on the payment when
  \<^verbatim>\<open>getPayment\<close> has one; otherwise the received composer on the aliases of
  \<^verbatim>\<open>getNodes\<close>. In particular, with both a proposal and a payment and no transfer, the
  balanced open composer is called and the rebalance composer is not. The run is a
  function of the four values, whatever the order of their arrival.
\<close>

theorem classification_precedence:
  assumes "validate a = Inr v"
    and "is_confirmed (the_invoice v)"
    and "fst (balancedOpen env (the_invoice v)) = Inr r_balancedOpen"
    and "fst (getNodes env (the_lnd v) (the_key v) (the_invoice v)) = Called (Inr r_getNodes)"
    and "fst (getPayment env (the_lnd v) (the_invoice v)) = Inr r_getPayment"
    and "fst (getTransfer env (the_key v) (the_nodes v) (the_invoice v)) = Inr r_getTransfer"
  shows "filter is_composer (snd (postSettledInvoice env a)) =
           (case r_getTransfer of
              Some n \<Rightarrow> []
            | None \<Rightarrow>
                (case r_balancedOpen of
                   Some p \<Rightarrow>
                     [GetBalancedOpenMessage (the_lnd v) (capacity p) (partner_public_key p)
                        (fee_rate p)]
                 | None \<Rightarrow>
                     (case r_getPayment of
                        Some payment \<Rightarrow>
                          [GetRebalanceMessage (the_lnd v) (fee_mtokens payment) (hops payment)
                             (payments (the_invoice v)) (received_mtokens (the_invoice v))]
                      | None \<Rightarrow>
                          [GetReceivedMessage (the_lnd v) (description (the_invoice v))
                             (payments (the_invoice v)) (received (the_invoice v))
                             r_getNodes]))) \<and>
         (r_getTransfer = None \<and> r_balancedOpen = Some p \<and> r_getPayment = Some payment \<longrightarrow>
            filter is_composer (snd (postSettledInvoice env a)) =
              [GetBalancedOpenMessage (the_lnd v) (capacity p) (partner_public_key p)
                 (fee_rate p)])"
proof -
  have main: "filter is_composer (snd (postSettledInvoice env a)) =
           (case r_getTransfer of
              Some n \<Rightarrow> []
            | None \<Rightarrow>
                (case r_balancedOpen of
                   Some p \<Rightarrow>
                     [GetBalancedOpenMessage (the_lnd v) (capacity p) (partner_public_key p)
                        (fee_rate p)]
                 | None \<Rightarrow>
                     (case r_getPayment of
                        Some payment \<Rightarrow>
                          [GetRebalanceMessage (the_lnd v) (fee_mtokens payment) (hops payment)
                             (payments (the_invoice v)) (received_mtokens (the_invoice v))]
                      | None \<Rightarrow>
                          [GetReceivedMessage (the_lnd v) (description (the_invoice v))
                             (payments (the_invoice v)) (received (the_invoice v))
                             r_getNodes])))"
    using assms by (rule composer_of_run)
  then show ?thesis by simp
qed

lemma scenario_checked_fields:
  "the_from scenario_checked = ''node_1''"
  "the_id scenario_checked = 7"
  "the_invoice scenario_checked = scenario_invoice"
  "the_key scenario_checked = ''02aa''"
  "the_lnd scenario_checked = 11"
  "the_nodes scenario_checked = [scenario_node]"
  "the_quiz scenario_checked = (\<lambda>m. Inr ())"
  "the_send scenario_checked = (\<lambda>u t opts. Inr ())"
  by (simp_all add: scenario_checked_def)

lemma scenario_channels:
  "uniq (map in_channel (payments scenario_invoice)) = [''61x1'', ''61x2'']"
  by (simp add: scenario_invoice_def uniq_def)

lemma scenario_getNodes:
  assumes "getChannel env = getChannel scenario_env"
    and "getNodeAlias env = getNodeAlias scenario_env"
  shows "getNodes env 11 ''02aa'' scenario_invoice =
     (Called (Inr [\<lparr>alias_name = ''peerA'', alias_id = ''03bb''\<rparr>,
                   \<lparr>alias_name = ''peerA'', alias_id = ''03bb''\<rparr>]),
      [GetChannel 11 ''61x1'', GetNodeAlias 11 ''03bb'',
       GetChannel 11 ''61x2'', GetNodeAlias 11 ''03bb''])"
  by (simp add: getNodes_def scenario_channels getNodes_iteratee_def assms scenario_env_def
      collect_def)

theorem classification_precedence_witness:
  "validate scenario_args = Inr scenario_checked \<and>
   is_confirmed (the_invoice scenario_checked) \<and>
   fst (balancedOpen scenario_env_both (the_invoice scenario_checked)) =
     Inr (Some scenario_proposal) \<and>
   fst (getPayment scenario_env_both (the_lnd scenario_checked)
     (the_invoice scenario_checked)) = Inr (Some scenario_payment) \<and>
   fst (getTransfer scenario_env_both (the_key scenario_checked)
     (the_nodes scenario_checked) (the_invoice scenario_checked)) = Inr None \<and>
   filter is_composer (snd (postSettledInvoice scenario_env_both scenario_args)) =
     [GetBalancedOpenMessage 11 2000000 ''03dd'' 1]"
proof -
  have h1: "validate scenario_args = Inr scenario_checked"
    by (rule validate_scenario)
  have h2: "is_confirmed (the_invoice scenario_checked)"
    by (simp add: scenario_checked_fields scenario_invoice_def)
  have h3: "fst (balancedOpen scenario_env_both (the_invoice scenario_checked)) =
      Inr (Some scenario_proposal)"
    using h2 by (simp add: balancedOpen_def scenario_env_both_def)
  have h4: "fst (getNodes scenario_env_both (the_lnd scenario_checked)
      (the_key scenario_checked) (the_invoice scenario_checked)) =
      Called (Inr [\<lparr>alias_name = ''peerA'', alias_id = ''03bb''\<rparr>,
                   \<lparr>alias_name = ''peerA'', alias_id = ''03bb''\<rparr>])"
    by (simp add: scenario_checked_fields scenario_getNodes scenario_env_both_def)
  have h5: "fst (getPayment scenario_env_both (the_lnd scenario_checked)
      (the_invoice scenario_checked)) = Inr (Some scenario_payment)"
    using h2 by (simp add: getPayment_def scenario_env_both_def)
  have h6: "fst (getTransfer scenario_env_both (the_key scenario_checked)
      (the_nodes scenario_checked) (the_invoice scenario_checked)) = Inr None"
    using h2 by (simp add: getTransfer_def scenario_checked_fields scenario_node_def)
  have "filter is_composer (snd (postSettledInvoice scenario_env_both scenario_args)) =
     [GetBalancedOpenMessage 11 2000000 ''03dd'' 1]"
    using classification_precedence [OF h1 h2 h3 h4 h5 h6]
    by (simp add: scenario_checked_fields scenario_proposal_def)
  with h1 h2 h3 h5 h6 show ?thesis by simp
qed

lemma find_Some_ex: "x \<in> set xs \<Longrightarrow> P x \<Longrightarrow> \<exists>y. find P xs = Some y"
  by (induction xs) auto

lemma getTransfer_found:
  assumes "is_confirmed invoice"
    and "n \<in> set nodes"
    and "public_key n \<noteq> key"
    and "subscribeToPastPayment env (node_lnd n) (invoice_id invoice) = Confirmed payment"
  shows "\<exists>m. fst (getTransfer env key nodes invoice) = Inr (Some m)"
proof -
  have mem: "n \<in> set (filter (\<lambda>n. public_key n \<noteq> key) nodes)"
    using assms(2,3) by simp
  have ok: "confirms env (invoice_id invoice) n"
    using assms(4) by (simp add: confirms_def)
  obtain m where
    "find (confirms env (invoice_id invoice)) (filter (\<lambda>n. public_key n \<noteq> key) nodes) = Some m"
    using find_Some_ex [OF mem, of "confirms env (invoice_id invoice)", OF ok] by (elim exE)
  then show ?thesis using assms(1) by (simp add: getTransfer_def Let_def)
qed

lemma run_transfer:
  assumes "validate a = Inr v"
    and "fst (getTransfer env (the_key v) (the_nodes v) (the_invoice v)) = Inr (Some m)"
  shows "snd (postSettledInvoice env a) = snd (checks env v)"
proof (cases "fst (getNodes env (the_lnd v) (the_key v) (the_invoice v))")
  case TypeErrorThrown
  then show ?thesis using assms(1) by (simp add: run_thrown)
next
  case (Called c)
  show ?thesis
  proof (cases c)
    case (Inl e)
    then show ?thesis using assms(1) Called by (simp add: run_failed)
  next
    case (Inr via)
    obtain p where p: "fst (balancedOpen env (the_invoice v)) = Inr p"
      using balancedOpen_Inr by blast
    obtain q where q: "fst (getPayment env (the_lnd v) (the_invoice v)) = Inr q"
      using getPayment_Inr by blast
    have n: "fst (getNodes env (the_lnd v) (the_key v) (the_invoice v)) = Called (Inr via)"
      using Called Inr by simp
    have "fst (checks env v) = Called (Inr (p, via, q, Some m))"
      using p n q assms(2) by (rule checks_joined_fst)
    then show ?thesis
      using assms(1) by (simp add: run_joined details_def dispatch_None and_then_Inr)
  qed
qed

text \<open>
  C3. For arguments that pass \<^verbatim>\<open>validate\<close> and a confirmed invoice, when the past
  payment subscription of a controlled node other than the receiving one reports
  \<^verbatim>\<open>confirmed\<close>, the run calls no composer and no sender: neither a text nor a quiz
  is sent. Every call of the run is a call of the node API.
\<close>

theorem transfer_sends_nothing:
  assumes "validate a = Inr v"
    and "is_confirmed (the_invoice v)"
    and "n \<in> set (the_nodes v)"
    and "public_key n \<noteq> the_key v"
    and "subscribeToPastPayment env (node_lnd n) (invoice_id (the_invoice v)) =
           Confirmed payment"
  shows "filter is_composer (snd (postSettledInvoice env a)) = [] \<and>
         filter is_dispatch (snd (postSettledInvoice env a)) = [] \<and>
         list_all is_probe (snd (postSettledInvoice env a))"
proof -
  obtain m where "fst (getTransfer env (the_key v) (the_nodes v) (the_invoice v)) = Inr (Some m)"
    using getTransfer_found [OF assms(2-5)] by blast
  then have "snd (postSettledInvoice env a) = snd (checks env v)"
    using assms(1) by (rule run_transfer [rotated])
  then show ?thesis
    by (simp add: checks_probes filter_probes_composer filter_probes_dispatch)
qed

lemma validate_scenario_two: "validate scenario_args_two = Inr scenario_checked_two"
  by (simp add: validate_def scenario_args_two_def scenario_checked_two_def scenario_args_def
      scenario_checked_def truthy_string_def truthy_number_def)

lemma scenario_checked_two_fields:
  "the_from scenario_checked_two = ''node_1''"
  "the_id scenario_checked_two = 7"
  "the_invoice scenario_checked_two = scenario_invoice"
  "the_key scenario_checked_two = ''02aa''"
  "the_lnd scenario_checked_two = 11"
  "the_nodes scenario_checked_two = [scenario_node, scenario_other_node]"
  "the_quiz scenario_checked_two = (\<lambda>m. Inr ())"
  "the_send scenario_checked_two = (\<lambda>u t opts. Inr ())"
  by (simp_all add: scenario_checked_two_def scenario_checked_def)

theorem transfer_sends_nothing_witness:
  "validate scenario_args_two = Inr scenario_checked_two \<and>
   is_confirmed (the_invoice scenario_checked_two) \<and>
   scenario_other_node \<in> set (the_nodes scenario_checked_two) \<and>
   public_key scenario_other_node \<noteq> the_key scenario_checked_two \<and>
   subscribeToPastPayment scenario_env_transfer (node_lnd scenario_other_node)
     (invoice_id (the_invoice scenario_checked_two)) = Confirmed scenario_payment \<and>
   filter is_composer (snd (postSettledInvoice scenario_env_transfer scenario_args_two)) = [] \<and>
   filter is_dispatch (snd (postSettledInvoice scenario_env_transfer scenario_args_two)) = []"
proof -
  have h1: "validate scenario_args_two = Inr scenario_checked_two"
    by (rule validate_scenario_two)
  have h2: "is_confirmed (the_invoice scenario_checked_two)"
    by (simp add: scenario_checked_two_fields scenario_invoice_def)
  have h3: "scenario_other_node \<in> set (the_nodes scenario_checked_two)"
    by (simp add: scenario_checked_two_fields)
  have h4: "public_key scenario_other_node \<noteq> the_key scenario_checked_two"
    by (simp add: scenario_checked_two_fields scenario_other_node_def)
  have h5: "subscribeToPastPayment scenario_env_transfer (node_lnd scenario_other_node)
     (invoice_id (the_invoice scenario_checked_two)) = Confirmed scenario_payment"
    by (simp add: scenario_env_transfer_def scenario_other_node_def)
  from transfer_sends_nothing [OF h1 h2 h3 h4 h5] h1 h2 h3 h4 h5 show ?thesis by simp
qed

section \<open>The order of the senders\<close>

lemma details_dispatch_free:
  "filter is_dispatch (snd (details env l invoice r1 r2 r3 r4)) = []"
  by (simp add: details_def composed_def split: option.splits)

lemma dispatch_shape:
  "snd (dispatch env v r) = [] \<or>
   (\<exists>u t. snd (dispatch env v r) = [Send u t sendOptions]) \<or>
   (\<exists>u t m. the_send v u t sendOptions = Inr () \<and>
      snd (dispatch env v r) = [Send u t sendOptions, Quiz m])"
proof (cases r)
  case None
  then show ?thesis by (simp add: dispatch_None)
next
  case (Some d)
  let ?t = "icon d @ '' '' @ message d @
         escape (if 1 < length (the_nodes v) then '' - '' @ the_from v else [])"
  show ?thesis
  proof (cases "the_send v (the_id v) ?t sendOptions")
    case (Inl e)
    then have "snd (dispatch env v r) = [Send (the_id v) ?t sendOptions]"
      using Some by (simp add: dispatch_Some_failed)
    then show ?thesis by blast
  next
    case (Inr u)
    then have sent: "the_send v (the_id v) ?t sendOptions = Inr ()" by simp
    have d: "snd (dispatch env v r) =
        Send (the_id v) ?t sendOptions # snd (quiz_task env (the_quiz v) (Some d))"
      using Some Inr by (simp add: dispatch_Some_sent)
    from quiz_task_events [of env "the_quiz v" "Some d"] show ?thesis
    proof
      assume "snd (quiz_task env (the_quiz v) (Some d)) = []"
      with d have "snd (dispatch env v r) = [Send (the_id v) ?t sendOptions]" by simp
      then show ?thesis by blast
    next
      assume "\<exists>m. snd (quiz_task env (the_quiz v) (Some d)) = [Quiz m]"
      then obtain m where "snd (quiz_task env (the_quiz v) (Some d)) = [Quiz m]" ..
      with d have "snd (dispatch env v r) = [Send (the_id v) ?t sendOptions, Quiz m]"
        by simp
      with sent show ?thesis by blast
    qed
  qed
qed

lemma dispatch_all_dispatch: "filter is_dispatch (snd (dispatch env v r)) = snd (dispatch env v r)"
  using dispatch_shape [of env v r] by auto

lemma run_without_aliases:
  assumes "validate a = Inr v"
    and "\<And>via. fst (getNodes env (the_lnd v) (the_key v) (the_invoice v)) \<noteq> Called (Inr via)"
  shows "snd (postSettledInvoice env a) = snd (checks env v)"
proof (cases "fst (getNodes env (the_lnd v) (the_key v) (the_invoice v))")
  case TypeErrorThrown
  then show ?thesis using assms(1) by (simp add: run_thrown)
next
  case (Called c)
  show ?thesis
  proof (cases c)
    case (Inl e)
    then show ?thesis using assms(1) Called by (simp add: run_failed)
  next
    case (Inr via)
    then show ?thesis using Called assms(2) by simp
  qed
qed

lemma run_dispatches:
  assumes "validate a = Inr v"
  shows "\<exists>r. filter is_dispatch (snd (postSettledInvoice env a)) = snd (dispatch env v r)"
proof (cases "\<exists>via. fst (getNodes env (the_lnd v) (the_key v) (the_invoice v)) = Called (Inr via)")
  case False
  then have "snd (postSettledInvoice env a) = snd (checks env v)"
    using assms by (intro run_without_aliases) blast+
  then have "filter is_dispatch (snd (postSettledInvoice env a)) = []"
    by (simp add: filter_probes_dispatch [OF checks_probes])
  then have "filter is_dispatch (snd (postSettledInvoice env a)) = snd (dispatch env v None)"
    by (simp add: dispatch_None)
  then show ?thesis ..
next
  case True
  then obtain via where
    n: "fst (getNodes env (the_lnd v) (the_key v) (the_invoice v)) = Called (Inr via)" ..
  obtain p where p: "fst (balancedOpen env (the_invoice v)) = Inr p"
    using balancedOpen_Inr by blast
  obtain q where q: "fst (getPayment env (the_lnd v) (the_invoice v)) = Inr q"
    using getPayment_Inr by blast
  obtain tr where tr: "fst (getTransfer env (the_key v) (the_nodes v) (the_invoice v)) = Inr tr"
    using getTransfer_Inr by blast
  let ?d = "details env (the_lnd v) (the_invoice v) p via q tr"
  have joined: "fst (checks env v) = Called (Inr (p, via, q, tr))"
    using p n q tr by (rule checks_joined_fst)
  have run: "filter is_dispatch (snd (postSettledInvoice env a)) =
      filter is_dispatch (snd (and_then ?d (dispatch env v)))"
    by (simp add: run_joined [OF assms joined] filter_probes_dispatch [OF checks_probes])
  obtain x t where dt: "?d = (x, t)" by (cases ?d)
  have t: "filter is_dispatch t = []"
    using details_dispatch_free [of env "the_lnd v" "the_invoice v" p via q tr] dt by simp
  show ?thesis
  proof (cases x)
    case (Inl e)
    then have "filter is_dispatch (snd (postSettledInvoice env a)) = snd (dispatch env v None)"
      using run dt t by (simp add: dispatch_None)
    then show ?thesis ..
  next
    case (Inr r)
    then have "filter is_dispatch (snd (postSettledInvoice env a)) = snd (dispatch env v r)"
      using run dt t by (simp add: and_then_Inr dispatch_all_dispatch)
    then show ?thesis ..
  qed
qed

text \<open>
  C9. In every run, the calls of the senders are none, or one text, or one text followed
  by one quiz, and in the last case the call of \<^verbatim>\<open>send\<close> had returned without an
  error before \<^verbatim>\<open>quiz\<close> was called. So a quiz is never sent before the text, nor
  without it.
\<close>

theorem quiz_follows_text:
  "filter is_dispatch (snd (postSettledInvoice env a)) = [] \<or>
   (\<exists>u t. filter is_dispatch (snd (postSettledInvoice env a)) = [Send u t sendOptions]) \<or>
   (\<exists>v u t m. validate a = Inr v \<and> the_send v u t sendOptions = Inr () \<and>
      filter is_dispatch (snd (postSettledInvoice env a)) = [Send u t sendOptions, Quiz m])"
proof (cases "validate a")
  case (Inl e)
  then show ?thesis by (simp add: run_invalid)
next
  case (Inr v)
  then obtain r where r: "filter is_dispatch (snd (postSettledInvoice env a)) =
      snd (dispatch env v r)"
    using run_dispatches by blast
  from dispatch_shape [of env v r] r Inr show ?thesis by metis
qed

section \<open>The scenario, run\<close>

lemma scenario_randomize:
  "randomize [''peerA'', ''peerB'', ''peerC'', ''peerD''] (Suc (Suc (Suc 0))) =
     [Some ''peerD'', Some ''peerB'', Some ''peerC'', Some ''peerA'']"
  by (simp add: randomize_def element_def upt_rec)

lemma scenario_checks:
  assumes "getChannel env = getChannel scenario_env"
    and "getNodeAlias env = getNodeAlias scenario_env"
    and "balancedOpenRequest env = balancedOpenRequest scenario_env"
    and "subscribeToPastPayment env = subscribeToPastPayment scenario_env"
  shows "checks env scenario_checked =
     (Called (Inr (None,
        [\<lparr>alias_name = ''peerA'', alias_id = ''03bb''\<rparr>,
         \<lparr>alias_name = ''peerA'', alias_id = ''03bb''\<rparr>], None, None)),
      [GetChannel 11 ''61x1'', GetNodeAlias 11 ''03bb'',
       GetChannel 11 ''61x2'', GetNodeAlias 11 ''03bb'',
       SubscribeToPastPayment 11 ''00ff''])"
proof -
  have c: "is_confirmed scenario_invoice" "invoice_id scenario_invoice = ''00ff''"
    by (simp_all add: scenario_invoice_def)
  have 1: "balancedOpen env scenario_invoice = (Inr None, [])"
    using c by (simp add: balancedOpen_def assms(3) scenario_env_def)
  have 2: "getPayment env 11 scenario_invoice =
      (Inr None, [SubscribeToPastPayment 11 ''00ff''])"
    using c by (simp add: getPayment_def assms(4) scenario_env_def)
  have 3: "getTransfer env ''02aa'' [scenario_node] scenario_invoice = (Inr None, [])"
    using c by (simp add: getTransfer_def scenario_node_def)
  show ?thesis
    by (simp add: checks_def scenario_checked_fields scenario_getNodes [OF assms(1,2)] 1 2 3
        attempt_then_Inr)
qed

lemma scenario_received:
  assumes "getChannel env = getChannel scenario_env"
    and "getNodeAlias env = getNodeAlias scenario_env"
    and "balancedOpenRequest env = balancedOpenRequest scenario_env"
    and "subscribeToPastPayment env = subscribeToPastPayment scenario_env"
    and "getReceivedMessage env = (\<lambda>l d ps r v. Inr dsc)"
  shows "postSettledInvoice env scenario_args =
     (Called (fst (dispatch env scenario_checked (Some dsc))),
      [GetChannel 11 ''61x1'', GetNodeAlias 11 ''03bb'',
       GetChannel 11 ''61x2'', GetNodeAlias 11 ''03bb'',
       SubscribeToPastPayment 11 ''00ff'',
       GetReceivedMessage 11 ''coffee'' (payments scenario_invoice) 3
         [\<lparr>alias_name = ''peerA'', alias_id = ''03bb''\<rparr>,
          \<lparr>alias_name = ''peerA'', alias_id = ''03bb''\<rparr>]] @
      snd (dispatch env scenario_checked (Some dsc)))"
proof -
  have c: "is_confirmed scenario_invoice" "description scenario_invoice = ''coffee''"
    "received scenario_invoice = 3"
    by (simp_all add: scenario_invoice_def)
  have d: "details env 11 scenario_invoice None
        [\<lparr>alias_name = ''peerA'', alias_id = ''03bb''\<rparr>,
         \<lparr>alias_name = ''peerA'', alias_id = ''03bb''\<rparr>] None None =
      (Inr (Some dsc),
       [GetReceivedMessage 11 ''coffee'' (payments scenario_invoice) 3
         [\<lparr>alias_name = ''peerA'', alias_id = ''03bb''\<rparr>,
          \<lparr>alias_name = ''peerA'', alias_id = ''03bb''\<rparr>]])"
    using c by (simp add: details_def composed_def assms(5))
  show ?thesis
    by (simp add: postSettledInvoice_def validate_scenario and_then_Inr attempt_then_Inr
        scenario_checks [OF assms(1-4)] scenario_checked_fields d)
qed

lemma scenario_quiz_task:
  assumes "randomIndex env = randomIndex scenario_env"
  shows "quiz_task env (\<lambda>m. Inr ()) (Some (scenario_descriptor\<lparr>title := ttl\<rparr>)) =
      (Inr (), [Quiz \<lparr>answers = [Some ''peerD'', Some ''peerB'', Some ''peerC'', Some ''peerA''],
         correct = 3, question = ttl\<rparr>])"
  by (simp add: quiz_task_def scenario_descriptor_def minQuizLength_def maxQuizLength_def
      assms scenario_env_def scenario_randomize numeral_3_eq_3)

lemma scenario_dispatch:
  assumes "randomIndex env = randomIndex scenario_env"
  shows "dispatch env scenario_checked (Some (scenario_descriptor\<lparr>title := ttl\<rparr>)) =
      (Inr (), [Send 7 ''$ Received 3'' ''MarkdownV2'',
        Quiz \<lparr>answers = [Some ''peerD'', Some ''peerB'', Some ''peerC'', Some ''peerA''],
         correct = 3, question = ttl\<rparr>])"
  by (simp add: dispatch_def post_Some scenario_checked_fields scenario_quiz_task [OF assms]
        and_then_Inr scenario_node_def sendOptions_def)
     (simp add: scenario_descriptor_def)

text \<open>
  The scenario as a whole: two channel lookups and alias lookups, the past payment
  subscription of the receiving node, the received composer on two aliases, one text and
  then one quiz of four answers.
\<close>

lemma scenario_run:
  "postSettledInvoice scenario_env scenario_args =
     (Called (Inr ()),
      [GetChannel 11 ''61x1'', GetNodeAlias 11 ''03bb'',
       GetChannel 11 ''61x2'', GetNodeAlias 11 ''03bb'',
       SubscribeToPastPayment 11 ''00ff'',
       GetReceivedMessage 11 ''coffee'' (payments scenario_invoice) 3
         [\<lparr>alias_name = ''peerA'', alias_id = ''03bb''\<rparr>,
          \<lparr>alias_name = ''peerA'', alias_id = ''03bb''\<rparr>],
       Send 7 ''$ Received 3'' ''MarkdownV2'',
       Quiz \<lparr>answers = [Some ''peerD'', Some ''peerB'', Some ''peerC'', Some ''peerA''],
         correct = 3, question = Some ''Who routed this?''\<rparr>])"
proof -
  have r: "getReceivedMessage scenario_env =
      (\<lambda>l d ps r v. Inr (scenario_descriptor\<lparr>title := Some ''Who routed this?''\<rparr>))"
    by (simp add: scenario_env_def scenario_descriptor_def)
  show ?thesis
    by (simp add: scenario_received [OF refl refl refl refl r] scenario_dispatch [OF refl])
qed

section \<open>The gate of the quiz\<close>

lemma quiz_task_dispatched:
  assumes "Quiz m \<in> set (snd (quiz_task env sq (Some d)))"
  shows "(\<exists>q. quiz d = Some q \<and> 2 \<le> length q \<and> length q \<le> 10) \<and> question m = title d"
proof (cases "quiz d")
  case None
  then show ?thesis using assms by (simp add: quiz_task_def)
next
  case (Some q)
  show ?thesis
  proof (cases "length q < 2 \<or> 10 < length q")
    case True
    then have "snd (quiz_task env sq (Some d)) = []"
      using Some by (auto simp add: quiz_task_def minQuizLength_def maxQuizLength_def)
    then show ?thesis using assms by simp
  next
    case False
    then have "snd (quiz_task env sq (Some d)) =
        [Quiz \<lparr>answers = randomize q (randomIndex env (length q)),
           correct = randomIndex env (length q), question = title d\<rparr>]"
      using Some by (simp add: quiz_task_def minQuizLength_def maxQuizLength_def Let_def)
    then have "question m = title d" using assms by auto
    then show ?thesis using Some False by simp
  qed
qed

lemma quiz_task_suppressed:
  assumes "quiz d = Some q" and "length q < 2 \<or> 10 < length q"
  shows "quiz_task env sq (Some d) = (Inr (), [])"
  using assms by (auto simp add: quiz_task_def minQuizLength_def maxQuizLength_def)

lemma dispatch_quiz_events:
  assumes "Quiz m \<in> set (snd (dispatch env v (Some d)))"
  shows "Quiz m \<in> set (snd (quiz_task env (the_quiz v) (Some d)))"
proof (cases "the_send v (the_id v)
      (icon d @ '' '' @ message d @
         escape (if 1 < length (the_nodes v) then '' - '' @ the_from v else []))
      sendOptions")
  case (Inl e)
  then show ?thesis using assms by (simp add: dispatch_Some_failed)
next
  case (Inr u)
  then show ?thesis using assms by (simp add: dispatch_Some_sent)
qed

lemma dispatch_suppressed:
  assumes "quiz_task env (the_quiz v) (Some d) = (Inr (), [])"
  shows "\<exists>t. snd (dispatch env v (Some d)) = [Send (the_id v) t sendOptions]"
proof (cases "the_send v (the_id v)
      (icon d @ '' '' @ message d @
         escape (if 1 < length (the_nodes v) then '' - '' @ the_from v else []))
      sendOptions")
  case (Inl e)
  then show ?thesis by (simp add: dispatch_Some_failed)
next
  case (Inr u)
  then show ?thesis using assms by (simp add: dispatch_Some_sent)
qed

text \<open>
  The gate on the length is there. When a descriptor is there, a quiz is sent only if
  the descriptor carries an answer list of a length between 2 and 10, and its question
  is whatever the title of the descriptor is. For an answer list shorter than 2 or
  longer than 10 the quiz task ends without an error and without a call, and the text
  is still sent.
\<close>

lemma quiz_length_gate:
  "(Quiz m \<in> set (snd (dispatch env v (Some d))) \<longrightarrow>
      (\<exists>q. quiz d = Some q \<and> 2 \<le> length q \<and> length q \<le> 10) \<and> question m = title d) \<and>
   (quiz d' = Some q' \<and> (length q' < 2 \<or> 10 < length q') \<longrightarrow>
      quiz_task env (the_quiz v) (Some d') = (Inr (), []) \<and>
      (\<exists>t. snd (dispatch env v (Some d')) = [Send (the_id v) t sendOptions]))"
proof (intro conjI impI)
  assume "Quiz m \<in> set (snd (dispatch env v (Some d)))"
  then have "Quiz m \<in> set (snd (quiz_task env (the_quiz v) (Some d)))"
    by (rule dispatch_quiz_events)
  then have "(\<exists>q. quiz d = Some q \<and> 2 \<le> length q \<and> length q \<le> 10) \<and> question m = title d"
    by (rule quiz_task_dispatched)
  then show "\<exists>q. quiz d = Some q \<and> 2 \<le> length q \<and> length q \<le> 10"
    and "question m = title d" by simp_all
next
  assume a: "quiz d' = Some q' \<and> (length q' < 2 \<or> 10 < length q')"
  then show s: "quiz_task env (the_quiz v) (Some d') = (Inr (), [])"
    using quiz_task_suppressed by blast
  then show "\<exists>t. snd (dispatch env v (Some d')) = [Send (the_id v) t sendOptions]"
    by (rule dispatch_suppressed)
qed

lemma quiz_length_gate_scenario:
  "Quiz \<lparr>answers = [Some ''peerD'', Some ''peerB'', Some ''peerC'', Some ''peerA''],
      correct = 3, question = Some ''Who routed this?''\<rparr>
     \<in> set (snd (dispatch scenario_env scenario_checked (Some scenario_descriptor))) \<and>
   quiz scenario_descriptor = Some [''peerA'', ''peerB'', ''peerC'', ''peerD''] \<and>
   quiz scenario_descriptor_short = Some [''peerA''] \<and>
   length [''peerA''] < 2 \<and>
   quiz_task scenario_env (the_quiz scenario_checked) (Some scenario_descriptor_short) =
     (Inr (), []) \<and>
   snd (dispatch scenario_env scenario_checked (Some scenario_descriptor_short)) =
     [Send 7 ''$ Received 3'' ''MarkdownV2'']"
proof -
  have d: "scenario_descriptor = scenario_descriptor\<lparr>title := Some ''Who routed this?''\<rparr>"
    by (simp add: scenario_descriptor_def)
  have h1: "Quiz \<lparr>answers = [Some ''peerD'', Some ''peerB'', Some ''peerC'', Some ''peerA''],
      correct = 3, question = Some ''Who routed this?''\<rparr>
     \<in> set (snd (dispatch scenario_env scenario_checked (Some scenario_descriptor)))"
    by (subst d) (simp add: scenario_dispatch [OF refl])
  have h2: "quiz scenario_descriptor_short = Some [''peerA''] \<and>
      (length [''peerA''] < 2 \<or> 10 < length [''peerA''])"
    by (simp add: scenario_descriptor_short_def)
  have q: "quiz scenario_descriptor = Some [''peerA'', ''peerB'', ''peerC'', ''peerD'']"
    by (simp add: scenario_descriptor_def)
  note g = quiz_length_gate [of _ scenario_env scenario_checked scenario_descriptor
      scenario_descriptor_short "[''peerA'']"]
  have s: "quiz_task scenario_env (the_quiz scenario_checked) (Some scenario_descriptor_short) =
     (Inr (), [])"
    using g h2 by blast
  obtain t where t: "snd (dispatch scenario_env scenario_checked
      (Some scenario_descriptor_short)) = [Send (the_id scenario_checked) t sendOptions]"
    using g h2 by blast
  have "snd (dispatch scenario_env scenario_checked (Some scenario_descriptor_short)) =
     [Send 7 ''$ Received 3'' ''MarkdownV2'']"
    using s
    by (simp add: dispatch_def post_Some scenario_checked_fields and_then_Inr
        scenario_node_def sendOptions_def)
       (simp add: scenario_descriptor_short_def scenario_descriptor_def)
  with h1 h2 q s show ?thesis by simp
qed

text \<open>
  C5. The claim has a quiz sent only for a descriptor that carries a title. The source
  checks \<^verbatim>\<open>details\<close>, \<^verbatim>\<open>details.quiz\<close> and its length and never
  \<^verbatim>\<open>details.title\<close>: on the scenario, with the received composer returning four
  answers and no title, the run sends the text and then calls the quiz sender with an
  undefined question, where the header of the module has \<^verbatim>\<open>question: <String>\<close>.
\<close>

theorem quiz_sent_without_title:
  "title (scenario_descriptor\<lparr>title := None\<rparr>) = None \<and>
   getReceivedMessage scenario_env_untitled 11 ''coffee'' (payments scenario_invoice) 3
     [\<lparr>alias_name = ''peerA'', alias_id = ''03bb''\<rparr>,
      \<lparr>alias_name = ''peerA'', alias_id = ''03bb''\<rparr>] =
     Inr (scenario_descriptor\<lparr>title := None\<rparr>) \<and>
   postSettledInvoice scenario_env_untitled scenario_args =
     (Called (Inr ()),
      [GetChannel 11 ''61x1'', GetNodeAlias 11 ''03bb'',
       GetChannel 11 ''61x2'', GetNodeAlias 11 ''03bb'',
       SubscribeToPastPayment 11 ''00ff'',
       GetReceivedMessage 11 ''coffee'' (payments scenario_invoice) 3
         [\<lparr>alias_name = ''peerA'', alias_id = ''03bb''\<rparr>,
          \<lparr>alias_name = ''peerA'', alias_id = ''03bb''\<rparr>],
       Send 7 ''$ Received 3'' ''MarkdownV2'',
       Quiz \<lparr>answers = [Some ''peerD'', Some ''peerB'', Some ''peerC'', Some ''peerA''],
         correct = 3, question = None\<rparr>])"
proof -
  have r: "getReceivedMessage scenario_env_untitled =
      (\<lambda>l d ps r v. Inr (scenario_descriptor\<lparr>title := None\<rparr>))"
    by (simp add: scenario_env_untitled_def)
  have e: "getChannel scenario_env_untitled = getChannel scenario_env"
    "getNodeAlias scenario_env_untitled = getNodeAlias scenario_env"
    "balancedOpenRequest scenario_env_untitled = balancedOpenRequest scenario_env"
    "subscribeToPastPayment scenario_env_untitled = subscribeToPastPayment scenario_env"
    "randomIndex scenario_env_untitled = randomIndex scenario_env"
    by (simp_all add: scenario_env_untitled_def)
  show ?thesis
    by (simp add: r scenario_received [OF e(1-4) r] scenario_dispatch [OF e(5)])
qed

section \<open>The text that is sent\<close>

lemma escape_concat:
  "escape s = concat (map (\<lambda>c. if c \<in> set reserved then [backslash, c] else [c]) s)"
  by (induction s) simp_all

lemma reserved_chars:
  "reserved = ''_*[]()~'' @ [CHR 0x60] @ ''>#+-=|{}.!'' @ [CHR 0x5C]"
  by (simp add: reserved_def)

lemma escape_dash_nonempty: "escape ('' - '' @ f) \<noteq> []"
  by simp

text \<open>
  C6. When a descriptor is there, the text passed to \<^verbatim>\<open>send\<close> is the icon, a space
  and the message, as they are, followed, when \<^verbatim>\<open>nodes\<close> has more than one element,
  by the suffix made of \<open>'' - ''\<close> and the \<^verbatim>\<open>from\<close> label in which every character among
  \<^verbatim>\<open>_ * [ ] ( ) ~ ` > # + - = | { } . ! \\<close> has a backslash before it (the dash of
  \<open>'' - ''\<close> too). The text is the icon, a space and the message alone exactly when
  \<^verbatim>\<open>nodes\<close> has at most one element.
\<close>

theorem text_suffix_escaped:
  "post send uid from_name key nodes (Some d) =
     (send uid
        (icon d @ '' '' @ message d @
           (if 1 < length nodes
            then concat (map
              (\<lambda>c. if c \<in> set (''_*[]()~'' @ [CHR 0x60] @ ''>#+-=|{}.!'' @ [CHR 0x5C])
                   then [CHR 0x5C, c] else [c])
              ('' - '' @ from_name))
            else []))
        sendOptions,
      [Send uid
        (icon d @ '' '' @ message d @
           (if 1 < length nodes
            then concat (map
              (\<lambda>c. if c \<in> set (''_*[]()~'' @ [CHR 0x60] @ ''>#+-=|{}.!'' @ [CHR 0x5C])
                   then [CHR 0x5C, c] else [c])
              ('' - '' @ from_name))
            else []))
        sendOptions]) \<and>
   ((snd (post send uid from_name key nodes (Some d)) =
       [Send uid (icon d @ '' '' @ message d) sendOptions]) = (length nodes \<le> 1))"
proof -
  have e: "escape ('' - '' @ from_name) =
      concat (map
        (\<lambda>c. if c \<in> set (''_*[]()~'' @ [CHR 0x60] @ ''>#+-=|{}.!'' @ [CHR 0x5C])
             then [CHR 0x5C, c] else [c])
        ('' - '' @ from_name))"
    unfolding escape_concat reserved_chars backslash_def ..
  have n: "escape ('' - '' @ from_name) \<noteq> []" by (rule escape_dash_nonempty)
  have p: "post send uid from_name key nodes (Some d) =
     (send uid (icon d @ '' '' @ message d @
          (if 1 < length nodes then escape ('' - '' @ from_name) else [])) sendOptions,
      [Send uid (icon d @ '' '' @ message d @
          (if 1 < length nodes then escape ('' - '' @ from_name) else [])) sendOptions])"
    by (simp add: post_Some)
  have iff: "(snd (post send uid from_name key nodes (Some d)) =
       [Send uid (icon d @ '' '' @ message d) sendOptions]) = (length nodes \<le> 1)"
    unfolding p using n by (cases "1 < length nodes") simp_all
  from p iff show ?thesis unfolding e by simp
qed

theorem text_suffix_escaped_witness:
  "snd (post (\<lambda>u t opts. Inr ()) 7 ''node_1.a'' ''02aa'' [scenario_node, scenario_other_node]
     (Some scenario_descriptor)) =
     [Send 7 (''$ Received 3 '' @ [CHR 0x5C] @ ''- node'' @ [CHR 0x5C] @ ''_1'' @ [CHR 0x5C] @
        ''.a'') ''MarkdownV2''] \<and>
   snd (post (\<lambda>u t opts. Inr ()) 7 ''node_1.a'' ''02aa'' [scenario_node]
     (Some scenario_descriptor)) =
     [Send 7 ''$ Received 3'' ''MarkdownV2'']"
proof -
  have i: "icon scenario_descriptor = ''$''" "message scenario_descriptor = ''Received 3''"
    by (simp_all add: scenario_descriptor_def)
  have two: "snd (post (\<lambda>u t opts. Inr ()) 7 ''node_1.a'' ''02aa''
      [scenario_node, scenario_other_node] (Some scenario_descriptor)) =
     [Send 7 (''$ Received 3 '' @ [CHR 0x5C] @ ''- node'' @ [CHR 0x5C] @ ''_1'' @ [CHR 0x5C] @
        ''.a'') ''MarkdownV2'']"
    using text_suffix_escaped [of "\<lambda>u t opts. Inr ()" 7 "''node_1.a''" "''02aa''"
        "[scenario_node, scenario_other_node]" scenario_descriptor]
    by (simp add: i sendOptions_def)
  have one: "snd (post (\<lambda>u t opts. Inr ()) 7 ''node_1.a'' ''02aa'' [scenario_node]
      (Some scenario_descriptor)) = [Send 7 ''$ Received 3'' ''MarkdownV2'']"
    using text_suffix_escaped [of "\<lambda>u t opts. Inr ()" 7 "''node_1.a''" "''02aa''"
        "[scenario_node]" scenario_descriptor]
    by (simp add: i sendOptions_def)
  from two one show ?thesis by simp
qed

text \<open>A label made of the nineteen characters: each one has its backslash.\<close>

lemma escape_reserved_label:
  "escape (''_*[]()~'' @ [CHR 0x60] @ ''>#+-=|{}.!'' @ [CHR 0x5C]) =
     [CHR 0x5C, CHR ''_'', CHR 0x5C, CHR ''*'', CHR 0x5C, CHR ''['', CHR 0x5C, CHR '']'',
      CHR 0x5C, CHR ''('', CHR 0x5C, CHR '')'', CHR 0x5C, CHR ''~'', CHR 0x5C, CHR 0x60,
      CHR 0x5C, CHR ''>'', CHR 0x5C, CHR ''#'', CHR 0x5C, CHR ''+'', CHR 0x5C, CHR ''-'',
      CHR 0x5C, CHR ''='', CHR 0x5C, CHR ''|'', CHR 0x5C, CHR ''{'', CHR 0x5C, CHR ''}'',
      CHR 0x5C, CHR ''.'', CHR 0x5C, CHR ''!'', CHR 0x5C, CHR 0x5C]"
  by (simp add: reserved_def backslash_def)

section \<open>Probes that find nothing\<close>

lemma fst_asyncMap_Cons:
  "fst (asyncMap (x # xs) f) =
     (case fst (f x) of
        TypeErrorThrown \<Rightarrow> TypeErrorThrown
      | Called r \<Rightarrow> collect r (fst (asyncMap xs f)))"
  by (simp split: prod.splits reply.splits)

lemma collect_Inr:
  "collect r rest = Called (Inr ys) \<Longrightarrow>
     \<exists>y zs. r = Inr y \<and> rest = Called (Inr zs) \<and> ys = y # zs"
  by (auto simp add: collect_def split: sum.splits reply.splits)

lemma asyncMap_Inr:
  "fst (asyncMap xs f) = Called (Inr ys) \<Longrightarrow>
     length ys = length xs \<and> (\<forall>i < length xs. fst (f (xs ! i)) = Called (Inr (ys ! i)))"
proof (induction xs arbitrary: ys)
  case Nil
  then show ?case by simp
next
  case (Cons x xs)
  have "(case fst (f x) of
           TypeErrorThrown \<Rightarrow> TypeErrorThrown
         | Called r \<Rightarrow> collect r (fst (asyncMap xs f))) = Called (Inr ys)"
    using Cons.prems by (simp only: fst_asyncMap_Cons)
  then obtain r where r: "fst (f x) = Called r"
    and c: "collect r (fst (asyncMap xs f)) = Called (Inr ys)"
    by (cases "fst (f x)") simp_all
  from c obtain y zs where y: "r = Inr y" and zs: "fst (asyncMap xs f) = Called (Inr zs)"
    and ys: "ys = y # zs"
    using collect_Inr by blast
  have ih: "length zs = length xs \<and>
      (\<forall>i < length xs. fst (f (xs ! i)) = Called (Inr (zs ! i)))"
    using zs by (rule Cons.IH)
  show ?case
  proof (intro conjI allI impI)
    show "length ys = length (x # xs)" using ih ys by simp
  next
    fix i assume "i < length (x # xs)"
    then show "fst (f ((x # xs) ! i)) = Called (Inr (ys ! i))"
      using ih ys r y by (cases i) simp_all
  qed
qed

lemma asyncMap_all_Inr:
  "(\<And>x. x \<in> set xs \<Longrightarrow> fst (f x) = Called (Inr (g x))) \<Longrightarrow>
     fst (asyncMap xs f) = Called (Inr (map g xs))"
proof (induction xs)
  case Nil
  show ?case by simp
next
  case (Cons x xs)
  have fx: "fst (f x) = Called (Inr (g x))" using Cons.prems by simp
  have rest: "fst (asyncMap xs f) = Called (Inr (map g xs))"
    using Cons.prems by (intro Cons.IH) simp
  show ?case by (simp only: fst_asyncMap_Cons fx rest) (simp add: collect_def)
qed

lemma asyncMap_value_all:
  assumes "fst (asyncMap xs f) = Called (Inr ys)" and "x \<in> set xs"
  shows "\<exists>y. fst (f x) = Called (Inr y)"
proof -
  obtain i where i: "i < length xs" and x: "x = xs ! i"
    using assms(2) by (auto simp add: in_set_conv_nth)
  have "fst (f (xs ! i)) = Called (Inr (ys ! i))"
    using asyncMap_Inr [OF assms(1)] i by blast
  then show ?thesis using x by blast
qed

lemma asyncMap_no_value:
  assumes "\<And>ys. fst (asyncMap xs f) \<noteq> Called (Inr ys)"
  shows "\<exists>x. x \<in> set xs \<and> (\<forall>y. fst (f x) \<noteq> Called (Inr y))"
proof (rule ccontr)
  assume "\<not> (\<exists>x. x \<in> set xs \<and> (\<forall>y. fst (f x) \<noteq> Called (Inr y)))"
  then have "\<forall>x \<in> set xs. \<exists>y. fst (f x) = Called (Inr y)" by blast
  then obtain g where "\<forall>x \<in> set xs. fst (f x) = Called (Inr (g x))" by metis
  then have "fst (asyncMap xs f) = Called (Inr (map g xs))"
    by (intro asyncMap_all_Inr) blast
  then show False using assms by blast
qed

lemma set_uniq_from: "set (uniq_from seen xs) = set xs - set seen"
  by (induction xs arbitrary: seen) auto

lemma set_uniq: "set (uniq xs) = set xs"
  by (simp add: uniq_def set_uniq_from)

lemma iteratee_fallback:
  "getChannel env l cid = Inl err \<Longrightarrow>
     getNodes_iteratee env l key cid =
       (Called (Inr \<lparr>alias_name = cid, alias_id = cid\<rparr>), [GetChannel l cid])"
  by (simp add: getNodes_iteratee_def)

lemma iteratee_no_value_after_lookup:
  assumes "\<And>y. fst (getNodes_iteratee env l key cid) \<noteq> Called (Inr y)"
  shows "\<exists>res. getChannel env l cid = Inr res"
proof (cases "getChannel env l cid")
  case (Inl err)
  then have "fst (getNodes_iteratee env l key cid) =
      Called (Inr \<lparr>alias_name = cid, alias_id = cid\<rparr>)"
    by (simp add: iteratee_fallback)
  then show ?thesis using assms by simp
next
  case (Inr res)
  then show ?thesis by blast
qed

lemma getPayment_absent:
  assumes "subscribeToPastPayment env l (invoice_id invoice) = Errored \<or>
           subscribeToPastPayment env l (invoice_id invoice) = Failed"
  shows "fst (getPayment env l invoice) = Inr None"
  using assms by (auto simp add: getPayment_def)

lemma find_None_all: "(\<And>x. x \<in> set xs \<Longrightarrow> \<not> P x) \<Longrightarrow> find P xs = None"
  by (induction xs) auto

lemma getTransfer_absent:
  assumes "\<And>n. n \<in> set nodes \<Longrightarrow> public_key n \<noteq> key \<Longrightarrow>
             subscribeToPastPayment env (node_lnd n) (invoice_id invoice) = Errored \<or>
             subscribeToPastPayment env (node_lnd n) (invoice_id invoice) = Failed"
  shows "fst (getTransfer env key nodes invoice) = Inr None"
proof (cases "is_confirmed invoice")
  case False
  then show ?thesis by (simp add: getTransfer_def)
next
  case True
  have "find (confirms env (invoice_id invoice)) (filter (\<lambda>n. public_key n \<noteq> key) nodes) = None"
  proof (rule find_None_all)
    fix n assume "n \<in> set (filter (\<lambda>n. public_key n \<noteq> key) nodes)"
    then have "n \<in> set nodes" "public_key n \<noteq> key" by simp_all
    then have "subscribeToPastPayment env (node_lnd n) (invoice_id invoice) = Errored \<or>
             subscribeToPastPayment env (node_lnd n) (invoice_id invoice) = Failed"
      by (rule assms)
    then show "\<not> confirms env (invoice_id invoice) n"
      by (auto simp add: confirms_def)
  qed
  then show ?thesis using True by (simp add: getTransfer_def Let_def)
qed

lemma getNodes_all_fallback:
  assumes "\<And>c. c \<in> set (map in_channel (payments invoice)) \<Longrightarrow> \<exists>e. getChannel env l c = Inl e"
  shows "fst (getNodes env l key invoice) =
     Called (Inr (map (\<lambda>c. \<lparr>alias_name = c, alias_id = c\<rparr>)
       (uniq (map in_channel (payments invoice)))))"
proof -
  have "fst (asyncMap (uniq (map in_channel (payments invoice))) (getNodes_iteratee env l key)) =
      Called (Inr (map (\<lambda>c. \<lparr>alias_name = c, alias_id = c\<rparr>)
        (uniq (map in_channel (payments invoice)))))"
  proof (rule asyncMap_all_Inr)
    fix c assume "c \<in> set (uniq (map in_channel (payments invoice)))"
    then have "c \<in> set (map in_channel (payments invoice))" by (simp add: set_uniq)
    then obtain e where "getChannel env l c = Inl e" using assms by blast
    then show "fst (getNodes_iteratee env l key c) =
        Called (Inr \<lparr>alias_name = c, alias_id = c\<rparr>)"
      by (simp add: iteratee_fallback)
  qed
  then show ?thesis by (simp add: getNodes_def)
qed

lemma getNodes_fallback_at:
  assumes "fst (getNodes env l key invoice) = Called (Inr via)"
    and "i < length (uniq (map in_channel (payments invoice)))"
    and "getChannel env l (uniq (map in_channel (payments invoice)) ! i) = Inl err"
  shows "via ! i =
     \<lparr>alias_name = uniq (map in_channel (payments invoice)) ! i,
      alias_id = uniq (map in_channel (payments invoice)) ! i\<rparr>"
proof -
  let ?cs = "uniq (map in_channel (payments invoice))"
  have "fst (asyncMap ?cs (getNodes_iteratee env l key)) = Called (Inr via)"
    using assms(1) by (simp add: getNodes_def)
  then have "fst (getNodes_iteratee env l key (?cs ! i)) = Called (Inr (via ! i))"
    using asyncMap_Inr assms(2) by blast
  then show ?thesis using assms(3) by (simp add: iteratee_fallback)
qed

lemma getNodes_no_value_after_lookup:
  assumes "\<And>via. fst (getNodes env l key invoice) \<noteq> Called (Inr via)"
  shows "\<exists>c res. c \<in> set (map in_channel (payments invoice)) \<and> getChannel env l c = Inr res"
proof -
  have "\<And>ys. fst (asyncMap (uniq (map in_channel (payments invoice)))
      (getNodes_iteratee env l key)) \<noteq> Called (Inr ys)"
    using assms by (simp add: getNodes_def)
  then obtain c where c: "c \<in> set (uniq (map in_channel (payments invoice)))"
    and n: "\<forall>y. fst (getNodes_iteratee env l key c) \<noteq> Called (Inr y)"
    using asyncMap_no_value [of "uniq (map in_channel (payments invoice))"
        "getNodes_iteratee env l key"] by blast
  obtain res where "getChannel env l c = Inr res"
    using iteratee_no_value_after_lookup [of env l key c] n by blast
  moreover have "c \<in> set (map in_channel (payments invoice))"
    using c by (simp add: set_uniq)
  ultimately show ?thesis by blast
qed

text \<open>
  The error of \<^verbatim>\<open>getNodeAlias\<close>, if it reports one, is another matter: its callback
  is the iteratee's own, so the error is the iteratee's.
\<close>

lemma iteratee_alias_error_passed_on:
  assumes "getChannel env l cid = Inr res"
    and "find (\<lambda>n. policy_public_key n \<noteq> key) (policies res) = Some peer"
    and "getNodeAlias env l (policy_public_key peer) = Inl e"
  shows "fst (getNodes_iteratee env l key cid) = Called (Inl e)"
  using assms by (simp add: getNodes_iteratee_def)

text \<open>
  C7, amended. A probe of the channel lookup or of a past payment that finds nothing is
  not an error of the run. A failed channel lookup in \<^verbatim>\<open>getNodes\<close> gives
  \<^verbatim>\<open>{id, alias: id}\<close> for that channel, at its place in the result, and when
  \<^verbatim>\<open>getNodes\<close> has no value some channel lookup has succeeded. An \<^verbatim>\<open>error\<close> or
  \<^verbatim>\<open>failed\<close> event gives \<^verbatim>\<open>getPayment\<close> the value undefined, and \<^verbatim>\<open>getTransfer\<close>
  the value undefined when every other node reports one. When all the probes of a run on
  a confirmed invoice find nothing, the four checks are joined with the fallback
  aliases, and the run goes on to call the balanced open composer or the received
  composer on those aliases.
\<close>

theorem probe_absence_not_propagated:
  "(getChannel env l cid = Inl err \<longrightarrow>
      getNodes_iteratee env l key cid =
        (Called (Inr \<lparr>alias_name = cid, alias_id = cid\<rparr>), [GetChannel l cid])) \<and>
   (fst (getNodes env l key invoice) = Called (Inr via) \<and>
    i < length (uniq (map in_channel (payments invoice))) \<and>
    getChannel env l (uniq (map in_channel (payments invoice)) ! i) = Inl err' \<longrightarrow>
      via ! i =
        \<lparr>alias_name = uniq (map in_channel (payments invoice)) ! i,
         alias_id = uniq (map in_channel (payments invoice)) ! i\<rparr>) \<and>
   ((\<exists>r. fst (getNodes env l key invoice) = Called (Inr r)) \<or>
    (\<exists>c res. c \<in> set (map in_channel (payments invoice)) \<and> getChannel env l c = Inr res)) \<and>
   (subscribeToPastPayment env l (invoice_id invoice) = Errored \<or>
    subscribeToPastPayment env l (invoice_id invoice) = Failed \<longrightarrow>
      fst (getPayment env l invoice) = Inr None) \<and>
   ((\<forall>n \<in> set nodes. public_key n \<noteq> key \<longrightarrow>
       subscribeToPastPayment env (node_lnd n) (invoice_id invoice) = Errored \<or>
       subscribeToPastPayment env (node_lnd n) (invoice_id invoice) = Failed) \<longrightarrow>
      fst (getTransfer env key nodes invoice) = Inr None) \<and>
   (validate a = Inr v \<and> is_confirmed (the_invoice v) \<and>
    (\<forall>c \<in> set (map in_channel (payments (the_invoice v))).
       \<exists>e. getChannel env (the_lnd v) c = Inl e) \<and>
    (subscribeToPastPayment env (the_lnd v) (invoice_id (the_invoice v)) = Errored \<or>
     subscribeToPastPayment env (the_lnd v) (invoice_id (the_invoice v)) = Failed) \<and>
    (\<forall>n \<in> set (the_nodes v). public_key n \<noteq> the_key v \<longrightarrow>
       subscribeToPastPayment env (node_lnd n) (invoice_id (the_invoice v)) = Errored \<or>
       subscribeToPastPayment env (node_lnd n) (invoice_id (the_invoice v)) = Failed) \<longrightarrow>
      (\<exists>p. fst (checks env v) =
         Called (Inr (p,
           map (\<lambda>c. \<lparr>alias_name = c, alias_id = c\<rparr>)
             (uniq (map in_channel (payments (the_invoice v)))),
           None, None)) \<and>
         filter is_composer (snd (postSettledInvoice env a)) =
           (case p of
              Some b \<Rightarrow>
                [GetBalancedOpenMessage (the_lnd v) (capacity b) (partner_public_key b)
                   (fee_rate b)]
            | None \<Rightarrow>
                [GetReceivedMessage (the_lnd v) (description (the_invoice v))
                   (payments (the_invoice v)) (received (the_invoice v))
                   (map (\<lambda>c. \<lparr>alias_name = c, alias_id = c\<rparr>)
                      (uniq (map in_channel (payments (the_invoice v)))))])))"
proof (intro conjI impI)
  assume "getChannel env l cid = Inl err"
  then show "getNodes_iteratee env l key cid =
        (Called (Inr \<lparr>alias_name = cid, alias_id = cid\<rparr>), [GetChannel l cid])"
    by (rule iteratee_fallback)
next
  assume "fst (getNodes env l key invoice) = Called (Inr via) \<and>
    i < length (uniq (map in_channel (payments invoice))) \<and>
    getChannel env l (uniq (map in_channel (payments invoice)) ! i) = Inl err'"
  then show "via ! i =
        \<lparr>alias_name = uniq (map in_channel (payments invoice)) ! i,
         alias_id = uniq (map in_channel (payments invoice)) ! i\<rparr>"
    using getNodes_fallback_at by blast
next
  show "(\<exists>r. fst (getNodes env l key invoice) = Called (Inr r)) \<or>
    (\<exists>c res. c \<in> set (map in_channel (payments invoice)) \<and> getChannel env l c = Inr res)"
  proof (cases "\<exists>r. fst (getNodes env l key invoice) = Called (Inr r)")
    case True
    then show ?thesis by blast
  next
    case False
    then have "\<exists>c res. c \<in> set (map in_channel (payments invoice)) \<and>
        getChannel env l c = Inr res"
      by (intro getNodes_no_value_after_lookup) blast
    then show ?thesis by blast
  qed
next
  assume "subscribeToPastPayment env l (invoice_id invoice) = Errored \<or>
    subscribeToPastPayment env l (invoice_id invoice) = Failed"
  then show "fst (getPayment env l invoice) = Inr None"
    by (rule getPayment_absent)
next
  assume "\<forall>n \<in> set nodes. public_key n \<noteq> key \<longrightarrow>
       subscribeToPastPayment env (node_lnd n) (invoice_id invoice) = Errored \<or>
       subscribeToPastPayment env (node_lnd n) (invoice_id invoice) = Failed"
  then show "fst (getTransfer env key nodes invoice) = Inr None"
    by (intro getTransfer_absent) blast
next
  let ?via = "map (\<lambda>c. \<lparr>alias_name = c, alias_id = c\<rparr>)
             (uniq (map in_channel (payments (the_invoice v))))"
  assume h: "validate a = Inr v \<and> is_confirmed (the_invoice v) \<and>
    (\<forall>c \<in> set (map in_channel (payments (the_invoice v))).
       \<exists>e. getChannel env (the_lnd v) c = Inl e) \<and>
    (subscribeToPastPayment env (the_lnd v) (invoice_id (the_invoice v)) = Errored \<or>
     subscribeToPastPayment env (the_lnd v) (invoice_id (the_invoice v)) = Failed) \<and>
    (\<forall>n \<in> set (the_nodes v). public_key n \<noteq> the_key v \<longrightarrow>
       subscribeToPastPayment env (node_lnd n) (invoice_id (the_invoice v)) = Errored \<or>
       subscribeToPastPayment env (node_lnd n) (invoice_id (the_invoice v)) = Failed)"
  obtain p where p: "fst (balancedOpen env (the_invoice v)) = Inr p"
    using balancedOpen_Inr by blast
  have n: "fst (getNodes env (the_lnd v) (the_key v) (the_invoice v)) = Called (Inr ?via)"
    using h by (intro getNodes_all_fallback) blast
  have q: "fst (getPayment env (the_lnd v) (the_invoice v)) = Inr None"
    using h by (intro getPayment_absent) blast
  have t: "fst (getTransfer env (the_key v) (the_nodes v) (the_invoice v)) = Inr None"
    using h by (intro getTransfer_absent) blast
  have c: "fst (checks env v) = Called (Inr (p, ?via, None, None))"
    using p n q t by (rule checks_joined_fst)
  have v: "validate a = Inr v" and conf: "is_confirmed (the_invoice v)"
    using h by simp_all
  have "filter is_composer (snd (postSettledInvoice env a)) =
           (case p of
              Some b \<Rightarrow>
                [GetBalancedOpenMessage (the_lnd v) (capacity b) (partner_public_key b)
                   (fee_rate b)]
            | None \<Rightarrow>
                [GetReceivedMessage (the_lnd v) (description (the_invoice v))
                   (payments (the_invoice v)) (received (the_invoice v)) ?via])"
    using composer_of_run [OF v conf p n q t] by (cases p) simp_all
  with c show "\<exists>p. fst (checks env v) = Called (Inr (p, ?via, None, None)) \<and>
         filter is_composer (snd (postSettledInvoice env a)) =
           (case p of
              Some b \<Rightarrow>
                [GetBalancedOpenMessage (the_lnd v) (capacity b) (partner_public_key b)
                   (fee_rate b)]
            | None \<Rightarrow>
                [GetReceivedMessage (the_lnd v) (description (the_invoice v))
                   (payments (the_invoice v)) (received (the_invoice v)) ?via])"
    by blast
qed
theorem probe_absence_not_propagated_witness:
  "getChannel scenario_env_absent 11 ''61x1'' = Inl (Failure ''FailedToFindChannel'') \<and>
   getNodes_iteratee scenario_env_absent 11 ''02aa'' ''61x1'' =
     (Called (Inr \<lparr>alias_name = ''61x1'', alias_id = ''61x1''\<rparr>), [GetChannel 11 ''61x1'']) \<and>
   fst (getNodes scenario_env_absent 11 ''02aa'' scenario_invoice) =
     Called (Inr [\<lparr>alias_name = ''61x1'', alias_id = ''61x1''\<rparr>,
                  \<lparr>alias_name = ''61x2'', alias_id = ''61x2''\<rparr>]) \<and>
   subscribeToPastPayment scenario_env_absent 11 (invoice_id scenario_invoice) = Errored \<and>
   fst (getPayment scenario_env_absent 11 scenario_invoice) = Inr None \<and>
   subscribeToPastPayment scenario_env_absent (node_lnd scenario_other_node)
     (invoice_id scenario_invoice) = Failed \<and>
   fst (getTransfer scenario_env_absent ''02aa'' [scenario_node, scenario_other_node]
     scenario_invoice) = Inr None \<and>
   validate scenario_args_two = Inr scenario_checked_two \<and>
   is_confirmed (the_invoice scenario_checked_two) \<and>
   filter is_composer (snd (postSettledInvoice scenario_env_absent scenario_args_two)) =
     [GetReceivedMessage 11 ''coffee'' (payments scenario_invoice) 3
        [\<lparr>alias_name = ''61x1'', alias_id = ''61x1''\<rparr>,
         \<lparr>alias_name = ''61x2'', alias_id = ''61x2''\<rparr>]]"
proof -
  let ?env = scenario_env_absent
  let ?via = "[\<lparr>alias_name = ''61x1'', alias_id = ''61x1''\<rparr>,
          \<lparr>alias_name = ''61x2'', alias_id = ''61x2''\<rparr>]"
  note T = probe_absence_not_propagated
    [of ?env 11 "''61x1''" "Failure ''FailedToFindChannel''" "''02aa''" scenario_invoice
      ?via 0 "Failure ''FailedToFindChannel''" "[scenario_node, scenario_other_node]"
      scenario_args_two scenario_checked_two]
  have g: "getChannel ?env l c = Inl (Failure ''FailedToFindChannel'')" for l c
    by (simp add: scenario_env_absent_def)
  have own: "subscribeToPastPayment ?env 11 p = Errored" for p
    by (simp add: scenario_env_absent_def)
  have other: "subscribeToPastPayment ?env (node_lnd scenario_other_node) p = Failed" for p
    by (simp add: scenario_env_absent_def scenario_other_node_def)
  have conf: "is_confirmed scenario_invoice" "description scenario_invoice = ''coffee''"
    "received scenario_invoice = 3"
    by (simp_all add: scenario_invoice_def)
  have others: "\<forall>n \<in> set [scenario_node, scenario_other_node]. public_key n \<noteq> ''02aa'' \<longrightarrow>
       subscribeToPastPayment ?env (node_lnd n) (invoice_id scenario_invoice) = Errored \<or>
       subscribeToPastPayment ?env (node_lnd n) (invoice_id scenario_invoice) = Failed"
    by (simp add: other scenario_node_def)
  have c1: "getNodes_iteratee ?env 11 ''02aa'' ''61x1'' =
     (Called (Inr \<lparr>alias_name = ''61x1'', alias_id = ''61x1''\<rparr>), [GetChannel 11 ''61x1''])"
    using T g by blast
  have c4: "fst (getPayment ?env 11 scenario_invoice) = Inr None"
    using T own by blast
  have c5: "fst (getTransfer ?env ''02aa'' [scenario_node, scenario_other_node]
     scenario_invoice) = Inr None"
    using T others by blast
  have b: "fst (balancedOpen ?env scenario_invoice) = Inr None"
    using conf by (simp add: balancedOpen_def scenario_env_absent_def scenario_env_def)
  have h: "validate scenario_args_two = Inr scenario_checked_two \<and>
    is_confirmed (the_invoice scenario_checked_two) \<and>
    (\<forall>c \<in> set (map in_channel (payments (the_invoice scenario_checked_two))).
       \<exists>e. getChannel ?env (the_lnd scenario_checked_two) c = Inl e) \<and>
    (subscribeToPastPayment ?env (the_lnd scenario_checked_two)
       (invoice_id (the_invoice scenario_checked_two)) = Errored \<or>
     subscribeToPastPayment ?env (the_lnd scenario_checked_two)
       (invoice_id (the_invoice scenario_checked_two)) = Failed) \<and>
    (\<forall>n \<in> set (the_nodes scenario_checked_two).
       public_key n \<noteq> the_key scenario_checked_two \<longrightarrow>
       subscribeToPastPayment ?env (node_lnd n)
         (invoice_id (the_invoice scenario_checked_two)) = Errored \<or>
       subscribeToPastPayment ?env (node_lnd n)
         (invoice_id (the_invoice scenario_checked_two)) = Failed)"
    using others by (simp add: validate_scenario_two scenario_checked_two_fields conf g own)
  obtain p where p: "fst (checks ?env scenario_checked_two) =
         Called (Inr (p,
           map (\<lambda>c. \<lparr>alias_name = c, alias_id = c\<rparr>)
             (uniq (map in_channel (payments (the_invoice scenario_checked_two)))),
           None, None))"
    and run: "filter is_composer (snd (postSettledInvoice ?env scenario_args_two)) =
           (case p of
              Some b \<Rightarrow>
                [GetBalancedOpenMessage (the_lnd scenario_checked_two) (capacity b)
                   (partner_public_key b) (fee_rate b)]
            | None \<Rightarrow>
                [GetReceivedMessage (the_lnd scenario_checked_two)
                   (description (the_invoice scenario_checked_two))
                   (payments (the_invoice scenario_checked_two))
                   (received (the_invoice scenario_checked_two))
                   (map (\<lambda>c. \<lparr>alias_name = c, alias_id = c\<rparr>)
                      (uniq (map in_channel (payments (the_invoice scenario_checked_two)))))])"
    using T h by blast
  have c2: "fst (getNodes ?env 11 ''02aa'' scenario_invoice) = Called (Inr ?via)"
    using getNodes_all_fallback [of scenario_invoice ?env 11 "''02aa''"] g
    by (simp add: scenario_channels)
  have "fst (checks ?env scenario_checked_two) = Called (Inr (None, ?via, None, None))"
    by (rule checks_joined_fst) (simp_all add: scenario_checked_two_fields b c2 c4 c5)
  then have "p = None"
    using p by simp
  then have c6: "filter is_composer (snd (postSettledInvoice ?env scenario_args_two)) =
     [GetReceivedMessage 11 ''coffee'' (payments scenario_invoice) 3 ?via]"
    using run by (simp add: scenario_checked_two_fields scenario_channels conf)
  from g c1 c2 own c4 other c5 h c6 show ?thesis by simp
qed

text \<open>
  C7, as the claim has it. An error of the alias lookup is not absorbed:
  \<^verbatim>\<open>getNodeAlias\<close> is handed the iteratee's own callback, so when it reports an error
  for the peer of a channel, the iteratee, \<^verbatim>\<open>getNodes\<close> and the run end with that
  error, with no fallback to \<^verbatim>\<open>{id, alias: id}\<close> and no composer called.
\<close>

theorem alias_lookup_error_fails_run_counterexample:
  "getChannel scenario_env_alias_error 11 ''61x1'' =
     Inr \<lparr>policies = [\<lparr>policy_public_key = ''02aa''\<rparr>, \<lparr>policy_public_key = ''03bb''\<rparr>]\<rparr> \<and>
   getNodeAlias scenario_env_alias_error 11 ''03bb'' =
     Inl (Status 503 ''UnexpectedErrorGettingNode'') \<and>
   fst (getNodes_iteratee scenario_env_alias_error 11 ''02aa'' ''61x1'') =
     Called (Inl (Status 503 ''UnexpectedErrorGettingNode'')) \<and>
   fst (postSettledInvoice scenario_env_alias_error scenario_args) =
     Called (Inl (Status 503 ''UnexpectedErrorGettingNode'')) \<and>
   filter is_composer (snd (postSettledInvoice scenario_env_alias_error scenario_args)) = []"
proof -
  let ?env = scenario_env_alias_error
  let ?e = "Status 503 ''UnexpectedErrorGettingNode''"
  have g: "getChannel ?env 11 ''61x1'' =
     Inr \<lparr>policies = [\<lparr>policy_public_key = ''02aa''\<rparr>, \<lparr>policy_public_key = ''03bb''\<rparr>]\<rparr>"
    by (simp add: scenario_env_alias_error_def scenario_env_def)
  have a: "getNodeAlias ?env 11 ''03bb'' = Inl ?e"
    by (simp add: scenario_env_alias_error_def)
  have i: "fst (getNodes_iteratee ?env 11 ''02aa'' ''61x1'') = Called (Inl ?e)"
    by (simp add: getNodes_iteratee_def g a)
  have n: "fst (getNodes ?env 11 ''02aa'' scenario_invoice) = Called (Inl ?e)"
    by (simp add: getNodes_def scenario_channels getNodes_iteratee_def
        scenario_env_alias_error_def scenario_env_def collect_def)
  have n': "fst (getNodes ?env (the_lnd scenario_checked) (the_key scenario_checked)
      (the_invoice scenario_checked)) = Called (Inl ?e)"
    using n by (simp add: scenario_checked_fields)
  have run: "postSettledInvoice ?env scenario_args =
      (Called (Inl ?e), snd (checks ?env scenario_checked))"
    using validate_scenario n' by (rule run_failed)
  have r1: "fst (postSettledInvoice ?env scenario_args) = Called (Inl ?e)"
    by (simp add: run)
  have r2: "filter is_composer (snd (postSettledInvoice ?env scenario_args)) = []"
    by (simp add: run filter_probes_composer [OF checks_probes])
  from g a i r1 r2 show ?thesis by simp
qed

section \<open>A channel whose policies all carry the receiving key\<close>

lemma iteratee_no_peer:
  assumes "getChannel env l cid = Inr res"
    and "\<forall>p \<in> set (policies res). policy_public_key p = key"
  shows "getNodes_iteratee env l key cid = (TypeErrorThrown, [GetChannel l cid])"
proof -
  have "find (\<lambda>n. policy_public_key n \<noteq> key) (policies res) = None"
    using assms(2) by (simp add: find_None_iff)
  then show ?thesis using assms(1) by (simp add: getNodes_iteratee_def)
qed

lemma find_first:
  assumes "\<forall>p \<in> set pre. \<not> P p" and "P x"
  shows "find P (pre @ x # rest) = Some x"
  using assms by (induction pre) simp_all

lemma iteratee_first_peer:
  assumes "getChannel env l cid = Inr res"
    and "policies res = pre @ peer # rest"
    and "\<forall>p \<in> set pre. policy_public_key p = key"
    and "policy_public_key peer \<noteq> key"
  shows "getNodes_iteratee env l key cid =
     (Called (getNodeAlias env l (policy_public_key peer)),
      [GetChannel l cid, GetNodeAlias l (policy_public_key peer)])"
proof -
  have "find (\<lambda>n. policy_public_key n \<noteq> key) (pre @ peer # rest) = Some peer"
    using assms(3,4) by (intro find_first) simp_all
  then show ?thesis using assms(1,2) by (simp add: getNodes_iteratee_def)
qed

lemma getNodes_no_peer:
  assumes "cid \<in> set (map in_channel (payments invoice))"
    and "getChannel env l cid = Inr res"
    and "\<forall>p \<in> set (policies res). policy_public_key p = key"
  shows "fst (getNodes env l key invoice) \<noteq> Called (Inr via)"
proof
  assume "fst (getNodes env l key invoice) = Called (Inr via)"
  then have v: "fst (asyncMap (uniq (map in_channel (payments invoice)))
      (getNodes_iteratee env l key)) = Called (Inr via)"
    by (simp add: getNodes_def)
  have m: "cid \<in> set (uniq (map in_channel (payments invoice)))"
    using assms(1) by (simp add: set_uniq)
  obtain y where "fst (getNodes_iteratee env l key cid) = Called (Inr y)"
    using asyncMap_value_all [OF v m] by blast
  then show False using iteratee_no_peer [OF assms(2,3)] by simp
qed

lemma run_without_aliases_fst:
  assumes "validate a = Inr v"
    and "\<And>via. fst (getNodes env (the_lnd v) (the_key v) (the_invoice v)) \<noteq> Called (Inr via)"
  shows "fst (postSettledInvoice env a) \<noteq> Called (Inr u)"
proof (cases "fst (getNodes env (the_lnd v) (the_key v) (the_invoice v))")
  case TypeErrorThrown
  then show ?thesis using assms(1) by (simp add: run_thrown)
next
  case (Called c)
  show ?thesis
  proof (cases c)
    case (Inl e)
    then show ?thesis using assms(1) Called by (simp add: run_failed)
  next
    case (Inr via)
    then show ?thesis using Called assms(2) by simp
  qed
qed

text \<open>
  C10. \<^verbatim>\<open>getNodes\<close> reads \<^verbatim>\<open>peer.public_key\<close> with no check that \<^verbatim>\<open>find\<close> found a
  policy. When a channel lookup succeeds and every policy of the channel carries the
  receiving key (or there is no policy), the read throws the TypeError of a property of
  undefined: the iteratee's callback is not called and no fallback is given. A run on
  an invoice paid through such a channel does not end with a value, and calls no
  composer and no sender. So when \<^verbatim>\<open>getNodes\<close> has a value, every channel that was
  looked up with success has a policy whose key differs from the receiving key; and the
  key that is read is that of the first such policy, passed to \<^verbatim>\<open>getNodeAlias\<close>.
\<close>

theorem peer_read_needs_other_policy:
  "(getChannel env l cid = Inr res \<and>
    (\<forall>p \<in> set (policies res). policy_public_key p = key) \<longrightarrow>
      getNodes_iteratee env l key cid = (TypeErrorThrown, [GetChannel l cid])) \<and>
   (validate a = Inr v \<and> cid' \<in> set (map in_channel (payments (the_invoice v))) \<and>
    getChannel env (the_lnd v) cid' = Inr res' \<and>
    (\<forall>p \<in> set (policies res'). policy_public_key p = the_key v) \<longrightarrow>
      fst (postSettledInvoice env a) \<noteq> Called (Inr ()) \<and>
      filter is_composer (snd (postSettledInvoice env a)) = [] \<and>
      filter is_dispatch (snd (postSettledInvoice env a)) = []) \<and>
   (fst (getNodes env' l key invoice) = Called (Inr via) \<longrightarrow>
      (\<forall>c \<in> set (map in_channel (payments invoice)). \<forall>r. getChannel env' l c = Inr r \<longrightarrow>
         (\<exists>p \<in> set (policies r). policy_public_key p \<noteq> key))) \<and>
   (getChannel env' l cid = Inr res'' \<and> policies res'' = pre @ peer # rest \<and>
    (\<forall>p \<in> set pre. policy_public_key p = key) \<and> policy_public_key peer \<noteq> key \<longrightarrow>
      getNodes_iteratee env' l key cid =
        (Called (getNodeAlias env' l (policy_public_key peer)),
         [GetChannel l cid, GetNodeAlias l (policy_public_key peer)]))"
proof (intro conjI impI)
  assume "getChannel env l cid = Inr res \<and>
    (\<forall>p \<in> set (policies res). policy_public_key p = key)"
  then show "getNodes_iteratee env l key cid = (TypeErrorThrown, [GetChannel l cid])"
    using iteratee_no_peer by blast
next
  assume h: "validate a = Inr v \<and> cid' \<in> set (map in_channel (payments (the_invoice v))) \<and>
    getChannel env (the_lnd v) cid' = Inr res' \<and>
    (\<forall>p \<in> set (policies res'). policy_public_key p = the_key v)"
  then have v: "validate a = Inr v"
    and m: "cid' \<in> set (map in_channel (payments (the_invoice v)))"
    and g: "getChannel env (the_lnd v) cid' = Inr res'"
    and o: "\<forall>p \<in> set (policies res'). policy_public_key p = the_key v"
    by simp_all
  have none: "fst (getNodes env (the_lnd v) (the_key v) (the_invoice v)) \<noteq> Called (Inr via)"
    for via
    using m g o by (rule getNodes_no_peer)
  show "fst (postSettledInvoice env a) \<noteq> Called (Inr ())"
    using v none by (rule run_without_aliases_fst)
  have run: "snd (postSettledInvoice env a) = snd (checks env v)"
    using v none by (rule run_without_aliases)
  show "filter is_composer (snd (postSettledInvoice env a)) = []"
    by (simp add: run filter_probes_composer [OF checks_probes])
  show "filter is_dispatch (snd (postSettledInvoice env a)) = []"
    by (simp add: run filter_probes_dispatch [OF checks_probes])
next
  assume ok: "fst (getNodes env' l key invoice) = Called (Inr via)"
  show "\<forall>c \<in> set (map in_channel (payments invoice)). \<forall>r. getChannel env' l c = Inr r \<longrightarrow>
         (\<exists>p \<in> set (policies r). policy_public_key p \<noteq> key)"
  proof (intro ballI allI impI)
    fix c r
    assume c: "c \<in> set (map in_channel (payments invoice))" and r: "getChannel env' l c = Inr r"
    show "\<exists>p \<in> set (policies r). policy_public_key p \<noteq> key"
    proof (rule ccontr)
      assume "\<not> (\<exists>p \<in> set (policies r). policy_public_key p \<noteq> key)"
      then have "\<forall>p \<in> set (policies r). policy_public_key p = key" by blast
      then have "fst (getNodes env' l key invoice) \<noteq> Called (Inr via)"
        by (rule getNodes_no_peer [OF c r])
      with ok show False by simp
    qed
  qed
next
  assume "getChannel env' l cid = Inr res'' \<and> policies res'' = pre @ peer # rest \<and>
    (\<forall>p \<in> set pre. policy_public_key p = key) \<and> policy_public_key peer \<noteq> key"
  then show "getNodes_iteratee env' l key cid =
        (Called (getNodeAlias env' l (policy_public_key peer)),
         [GetChannel l cid, GetNodeAlias l (policy_public_key peer)])"
    using iteratee_first_peer by blast
qed

theorem peer_read_needs_other_policy_witness:
  "getChannel scenario_env_own_policies 11 ''61x1'' =
     Inr \<lparr>policies = [\<lparr>policy_public_key = ''02aa''\<rparr>, \<lparr>policy_public_key = ''02aa''\<rparr>]\<rparr> \<and>
   ''61x1'' \<in> set (map in_channel (payments scenario_invoice)) \<and>
   getNodes_iteratee scenario_env_own_policies 11 ''02aa'' ''61x1'' =
     (TypeErrorThrown, [GetChannel 11 ''61x1'']) \<and>
   validate scenario_args = Inr scenario_checked \<and>
   fst (postSettledInvoice scenario_env_own_policies scenario_args) \<noteq> Called (Inr ()) \<and>
   filter is_composer (snd (postSettledInvoice scenario_env_own_policies scenario_args)) = [] \<and>
   filter is_dispatch (snd (postSettledInvoice scenario_env_own_policies scenario_args)) = [] \<and>
   fst (getNodes scenario_env 11 ''02aa'' scenario_invoice) =
     Called (Inr [\<lparr>alias_name = ''peerA'', alias_id = ''03bb''\<rparr>,
                  \<lparr>alias_name = ''peerA'', alias_id = ''03bb''\<rparr>]) \<and>
   getChannel scenario_env 11 ''61x1'' =
     Inr \<lparr>policies = [\<lparr>policy_public_key = ''02aa''\<rparr>, \<lparr>policy_public_key = ''03bb''\<rparr>]\<rparr> \<and>
   getNodes_iteratee scenario_env 11 ''02aa'' ''61x1'' =
     (Called (getNodeAlias scenario_env 11 ''03bb''),
      [GetChannel 11 ''61x1'', GetNodeAlias 11 ''03bb''])"
proof -
  let ?own = "\<lparr>policies = [\<lparr>policy_public_key = ''02aa''\<rparr>, \<lparr>policy_public_key = ''02aa''\<rparr>]\<rparr>"
  let ?two = "\<lparr>policies = [\<lparr>policy_public_key = ''02aa''\<rparr>, \<lparr>policy_public_key = ''03bb''\<rparr>]\<rparr>"
  let ?via = "[\<lparr>alias_name = ''peerA'', alias_id = ''03bb''\<rparr>,
          \<lparr>alias_name = ''peerA'', alias_id = ''03bb''\<rparr>]"
  note T = peer_read_needs_other_policy
    [of scenario_env_own_policies 11 "''61x1''" ?own "''02aa''"
      scenario_args scenario_checked "''61x1''" ?own scenario_env scenario_invoice ?via ?two
      "[\<lparr>policy_public_key = ''02aa''\<rparr>]" "\<lparr>policy_public_key = ''03bb''\<rparr>" "[]"]
  have g: "getChannel scenario_env_own_policies 11 ''61x1'' = Inr ?own"
    by (simp add: scenario_env_own_policies_def)
  have m: "''61x1'' \<in> set (map in_channel (payments scenario_invoice))"
    by (simp add: scenario_invoice_def)
  have v: "validate scenario_args = Inr scenario_checked"
    by (rule validate_scenario)
  have h1: "getChannel scenario_env_own_policies 11 ''61x1'' = Inr ?own \<and>
    (\<forall>p \<in> set (policies ?own). policy_public_key p = ''02aa'')"
    using g by simp
  have c1: "getNodes_iteratee scenario_env_own_policies 11 ''02aa'' ''61x1'' =
     (TypeErrorThrown, [GetChannel 11 ''61x1''])"
    using T [THEN conjunct1, THEN mp, OF h1] .
  have h2: "validate scenario_args = Inr scenario_checked \<and>
    ''61x1'' \<in> set (map in_channel (payments (the_invoice scenario_checked))) \<and>
    getChannel scenario_env_own_policies (the_lnd scenario_checked) ''61x1'' = Inr ?own \<and>
    (\<forall>p \<in> set (policies ?own). policy_public_key p = the_key scenario_checked)"
    using v g m by (simp add: scenario_checked_fields)
  have c2: "fst (postSettledInvoice scenario_env_own_policies scenario_args) \<noteq> Called (Inr ()) \<and>
      filter is_composer (snd (postSettledInvoice scenario_env_own_policies scenario_args)) = [] \<and>
      filter is_dispatch (snd (postSettledInvoice scenario_env_own_policies scenario_args)) = []"
    using T [THEN conjunct2, THEN conjunct1, THEN mp, OF h2] .
  have n: "fst (getNodes scenario_env 11 ''02aa'' scenario_invoice) = Called (Inr ?via)"
    by (simp add: scenario_getNodes)
  have g2: "getChannel scenario_env 11 ''61x1'' = Inr ?two"
    by (simp add: scenario_env_def)
  have h4: "getChannel scenario_env 11 ''61x1'' = Inr ?two \<and>
      policies ?two = [\<lparr>policy_public_key = ''02aa''\<rparr>] @ \<lparr>policy_public_key = ''03bb''\<rparr> # [] \<and>
      (\<forall>p \<in> set [\<lparr>policy_public_key = ''02aa''\<rparr>]. policy_public_key p = ''02aa'') \<and>
      policy_public_key \<lparr>policy_public_key = ''03bb''\<rparr> \<noteq> ''02aa''"
    using g2 by simp
  have c4: "getNodes_iteratee scenario_env 11 ''02aa'' ''61x1'' =
     (Called (getNodeAlias scenario_env 11 ''03bb''),
      [GetChannel 11 ''61x1'', GetNodeAlias 11 ''03bb''])"
    using T [THEN conjunct2, THEN conjunct2, THEN conjunct2, THEN mp, OF h4] by simp
  from g m c1 v c2 n g2 c4 show ?thesis by simp
qed

section \<open>An invoice that is not confirmed yet\<close>

lemma getNodes_payments:
  "payments invoice = payments invoice' \<Longrightarrow>
     getNodes env l key invoice = getNodes env l key invoice'"
  by (simp add: getNodes_def)

text \<open>
  What holds of an unconfirmed invoice: \<^verbatim>\<open>balancedOpen\<close>, \<^verbatim>\<open>getPayment\<close> and
  \<^verbatim>\<open>getTransfer\<close> end at once with undefined and no call, no composer and no sender is
  called, and the calls of the run are those of \<^verbatim>\<open>getNodes\<close>; the run has a value
  when \<^verbatim>\<open>getNodes\<close> has one.
\<close>

lemma run_unconfirmed:
  assumes "validate a = Inr v" and "\<not> is_confirmed (the_invoice v)"
  shows "balancedOpen env (the_invoice v) = (Inr None, []) \<and>
         getPayment env (the_lnd v) (the_invoice v) = (Inr None, []) \<and>
         getTransfer env (the_key v) (the_nodes v) (the_invoice v) = (Inr None, []) \<and>
         (fst (getNodes env (the_lnd v) (the_key v) (the_invoice v)) = Called (Inr via) \<longrightarrow>
            postSettledInvoice env a =
              (Called (Inr ()), snd (getNodes env (the_lnd v) (the_key v) (the_invoice v)))) \<and>
         filter is_composer (snd (postSettledInvoice env a)) = [] \<and>
         filter is_dispatch (snd (postSettledInvoice env a)) = []"
proof -
  let ?n = "getNodes env (the_lnd v) (the_key v) (the_invoice v)"
  have b: "balancedOpen env (the_invoice v) = (Inr None, [])"
    using assms(2) by (simp add: balancedOpen_def)
  have p: "getPayment env (the_lnd v) (the_invoice v) = (Inr None, [])"
    using assms(2) by (simp add: getPayment_def)
  have t: "getTransfer env (the_key v) (the_nodes v) (the_invoice v) = (Inr None, [])"
    using assms(2) by (simp add: getTransfer_def)
  have run: "postSettledInvoice env a = (Called (Inr ()), snd ?n)"
    if n: "fst ?n = Called (Inr via)"
  proof -
    have c: "checks env v = (Called (Inr (None, via, None, None)), snd ?n)"
      using checks_joined [of env v None via None None] n by (simp add: b p t)
    then have "fst (checks env v) = Called (Inr (None, via, None, None))" by simp
    then show ?thesis
      using assms by (simp add: run_joined details_def dispatch_None and_then_Inr c)
  qed
  have probes: "list_all is_probe (snd (postSettledInvoice env a))"
  proof (cases "\<exists>w. fst ?n = Called (Inr w)")
    case True
    then obtain w where w: "fst ?n = Called (Inr w)" ..
    have c: "checks env v = (Called (Inr (None, w, None, None)), snd ?n)"
      using checks_joined [of env v None w None None] w by (simp add: b p t)
    then have "fst (checks env v) = Called (Inr (None, w, None, None))" by simp
    then have "snd (postSettledInvoice env a) = snd ?n"
      using assms by (simp add: run_joined details_def dispatch_None and_then_Inr c)
    then show ?thesis by (simp add: getNodes_probes)
  next
    case False
    then have "snd (postSettledInvoice env a) = snd (checks env v)"
      using assms(1) by (intro run_without_aliases) blast+
    then show ?thesis by (simp add: checks_probes)
  qed
  from b p t run probes show ?thesis
    by (simp add: filter_probes_composer filter_probes_dispatch)
qed

lemma validate_scenario_unconfirmed:
  "validate scenario_args_unconfirmed =
     Inr (scenario_checked\<lparr>the_invoice := scenario_invoice\<lparr>is_confirmed := False\<rparr>\<rparr>)"
  by (simp add: validate_def scenario_args_unconfirmed_def scenario_args_def
      scenario_checked_def truthy_string_def truthy_number_def)

text \<open>
  C2. The claim has each of the four checks end at once on an unconfirmed invoice, with
  no call of the node API. \<^verbatim>\<open>balancedOpen\<close>, \<^verbatim>\<open>getPayment\<close>, \<^verbatim>\<open>getTransfer\<close> and
  \<^verbatim>\<open>details\<close> start with a check of \<^verbatim>\<open>invoice.is_confirmed\<close>; \<^verbatim>\<open>getNodes\<close> has
  none. On the invoice of the scenario, not confirmed yet, the run looks up both channels
  and both aliases, then ends with no message.
\<close>

theorem unconfirmed_getNodes_calls_node_api:
  "is_confirmed (scenario_invoice\<lparr>is_confirmed := False\<rparr>) = False \<and>
   arg_invoice scenario_args_unconfirmed = Some (scenario_invoice\<lparr>is_confirmed := False\<rparr>) \<and>
   postSettledInvoice scenario_env scenario_args_unconfirmed =
     (Called (Inr ()),
      [GetChannel 11 ''61x1'', GetNodeAlias 11 ''03bb'',
       GetChannel 11 ''61x2'', GetNodeAlias 11 ''03bb''])"
proof -
  let ?u = "scenario_invoice\<lparr>is_confirmed := False\<rparr>"
  let ?v = "scenario_checked\<lparr>the_invoice := ?u\<rparr>"
  let ?via = "[\<lparr>alias_name = ''peerA'', alias_id = ''03bb''\<rparr>,
           \<lparr>alias_name = ''peerA'', alias_id = ''03bb''\<rparr>]"
  have f: "the_lnd ?v = 11" "the_key ?v = ''02aa''" "the_invoice ?v = ?u"
    by (simp_all add: scenario_checked_def)
  have u: "\<not> is_confirmed (the_invoice ?v)" by (simp add: f)
  have n1: "getNodes scenario_env 11 ''02aa'' ?u =
     (Called (Inr ?via),
      [GetChannel 11 ''61x1'', GetNodeAlias 11 ''03bb'',
       GetChannel 11 ''61x2'', GetNodeAlias 11 ''03bb''])"
    using getNodes_payments [of ?u scenario_invoice scenario_env 11 "''02aa''"]
    by (simp add: scenario_getNodes)
  have n: "fst (getNodes scenario_env (the_lnd ?v) (the_key ?v) (the_invoice ?v)) =
      Called (Inr ?via)"
    by (simp only: f n1) simp
  have r1: "postSettledInvoice scenario_env scenario_args_unconfirmed =
     (Called (Inr ()),
      [GetChannel 11 ''61x1'', GetNodeAlias 11 ''03bb'',
       GetChannel 11 ''61x2'', GetNodeAlias 11 ''03bb''])"
    using run_unconfirmed [OF validate_scenario_unconfirmed u, of scenario_env ?via] n
    by (simp only: f n1) simp
  have a: "arg_invoice scenario_args_unconfirmed = Some ?u"
    by (simp add: scenario_args_unconfirmed_def)
  from a r1 show ?thesis by simp
qed

end
